theory Spec2Isabelle
  imports Complex_Main "HOL-Library.Word"
begin

section \<open>Colour-heuristic anemia analysis (AnalysisPage.tsx)\<close>

text \<open>
  The analysis pipeline of \<^verbatim>\<open>src/components/pages/AnalysisPage.tsx\<close>:
  \<^verbatim>\<open>isSkinPixel\<close>, \<^verbatim>\<open>calculatePallorIndex\<close>, \<^verbatim>\<open>estimateHemoglobin\<close>,
  \<^verbatim>\<open>assessAnemiaRisk\<close>, \<^verbatim>\<open>generateGradCAM\<close>, \<^verbatim>\<open>getDefaultResult\<close> and
  \<^verbatim>\<open>analyzeAnemiaFromImage\<close>.

  Numbers. A JavaScript \<^verbatim>\<open>number\<close> is an IEEE double; here it is the real number it
  stands for, so every operation is exact and the values NaN and Infinity do not exist.
  The pixel buffer holds bytes and the channel sums of bytes are integers; in the concrete
  rasters evaluated below every threshold is met or missed by a margin far above the
  rounding error of a double.
  What the runtime supplies is a parameter: the value of \<^verbatim>\<open>Math.random()\<close>, the date of
  \<^verbatim>\<open>new Date()\<close>, the rendering of numbers into text, and whether a 2D drawing
  context can be had.
\<close>

subsection \<open>JavaScript arithmetic on reals\<close>

text \<open>\<^verbatim>\<open>Math.round\<close>: the nearest integer, a tie going up.\<close>

definition Math_round :: "real \<Rightarrow> int" where
  "Math_round x = \<lfloor>x + 1 / 2\<rfloor>"

text \<open>\<^verbatim>\<open>x % y\<close>: the remainder of the division truncated towards zero; it has the sign
  of \<open>x\<close>. The source only divides by 6 and by 360.\<close>

definition js_rem :: "real \<Rightarrow> real \<Rightarrow> real" where
  "js_rem x y = x - y * of_int (if x / y < 0 then \<lceil>x / y\<rceil> else \<lfloor>x / y\<rfloor>)"

subsection \<open>Skin classifier: \<^verbatim>\<open>isSkinPixel\<close>\<close>

text \<open>The locals of \<^verbatim>\<open>isSkinPixel\<close>, each a function of the pixel.\<close>

definition hsv_max :: "real \<Rightarrow> real \<Rightarrow> real \<Rightarrow> real" where
  "hsv_max r g b = max (max r g) b"

definition hsv_min :: "real \<Rightarrow> real \<Rightarrow> real \<Rightarrow> real" where
  "hsv_min r g b = min (min r g) b"

definition hsv_delta :: "real \<Rightarrow> real \<Rightarrow> real \<Rightarrow> real" where
  "hsv_delta r g b = hsv_max r g b - hsv_min r g b"

definition hsv_h :: "real \<Rightarrow> real \<Rightarrow> real \<Rightarrow> real" where
  "hsv_h r g b =
     (let mx = hsv_max r g b; delta = hsv_delta r g b;
          h = (if delta \<noteq> 0
               then (if mx = r then js_rem ((g - b) / delta) 6
                     else if mx = g then (b - r) / delta + 2
                     else (r - g) / delta + 4)
               else 0)
      in js_rem (h * 60 + 360) 360)"

definition hsv_s :: "real \<Rightarrow> real \<Rightarrow> real \<Rightarrow> real" where
  "hsv_s r g b = (if hsv_max r g b = 0 then 0 else hsv_delta r g b / hsv_max r g b)"

definition hsv_v :: "real \<Rightarrow> real \<Rightarrow> real \<Rightarrow> real" where
  "hsv_v r g b = hsv_max r g b / 255"

definition skinHueRange1 :: "real \<Rightarrow> real \<Rightarrow> real \<Rightarrow> bool" where
  "skinHueRange1 r g b = (hsv_h r g b \<ge> 0 \<and> hsv_h r g b \<le> 25)"

definition skinHueRange2 :: "real \<Rightarrow> real \<Rightarrow> real \<Rightarrow> bool" where
  "skinHueRange2 r g b = (hsv_h r g b \<ge> 340 \<and> hsv_h r g b \<le> 360)"

definition skinSatRange :: "real \<Rightarrow> real \<Rightarrow> real \<Rightarrow> bool" where
  "skinSatRange r g b = (hsv_s r g b \<ge> 0.15 \<and> hsv_s r g b \<le> 0.68)"

definition skinValRange :: "real \<Rightarrow> real \<Rightarrow> real \<Rightarrow> bool" where
  "skinValRange r g b = (hsv_v r g b \<ge> 0.35 \<and> hsv_v r g b \<le> 0.95)"

definition rgbSkinCheck :: "real \<Rightarrow> real \<Rightarrow> real \<Rightarrow> bool" where
  "rgbSkinCheck r g b =
     (r > 95 \<and> g > 40 \<and> b > 20 \<and>
      max (max r g) b - min (min r g) b > 15 \<and>
      \<bar>r - g\<bar> > 15 \<and> r > g \<and> r > b)"

definition isSkinPixel :: "real \<Rightarrow> real \<Rightarrow> real \<Rightarrow> real" where
  "isSkinPixel r g b =
     (if (skinHueRange1 r g b \<or> skinHueRange2 r g b) \<and> skinSatRange r g b \<and>
         skinValRange r g b \<and> rgbSkinCheck r g b
      then 0.9
      else if rgbSkinCheck r g b then 0.7
      else if (skinHueRange1 r g b \<or> skinHueRange2 r g b) \<and> skinSatRange r g b then 0.5
      else 0.0)"

subsection \<open>Colour metrics\<close>

definition calculatePallorIndex :: "real \<Rightarrow> real \<Rightarrow> real \<Rightarrow> real \<Rightarrow> real" where
  "calculatePallorIndex r g b brightness =
     (let redDeficiency = max 0 ((200 - r) / 200);
          overallPaleness = max 0 ((220 - brightness) / 220);
          colorBalance = \<bar>r - g\<bar> / 255
      in redDeficiency * 0.5 + overallPaleness * 0.3 + (1 - colorBalance) * 0.2)"

definition estimateHemoglobin :: "real \<Rightarrow> real \<Rightarrow> real \<Rightarrow> real \<Rightarrow> real" where
  "estimateHemoglobin r g b pallorIndex =
     (let baseHemoglobin = 14.0;
          redContribution = (r / 255) * 4.0;
          pallorReduction = pallorIndex * 6.0;
          estimated = baseHemoglobin + redContribution - pallorReduction
      in max 4.0 (min 18.0 estimated))"

subsection \<open>Risk classifier: \<^verbatim>\<open>assessAnemiaRisk\<close>\<close>

datatype risk_tier = Normal | MildRisk | HighRisk | SevereRisk

text \<open>The severity ordering Normal < Mild Risk < High Risk < Severe Risk.\<close>

fun severity :: "risk_tier \<Rightarrow> nat" where
  "severity Normal = 0"
| "severity MildRisk = 1"
| "severity HighRisk = 2"
| "severity SevereRisk = 3"

text \<open>How the runtime writes numbers into the template strings: \<open>showNum\<close> for
  \<^verbatim>\<open>${Math.round(r)}\<close>, \<open>toFixed\<close> for \<^verbatim>\<open>x.toFixed(d)\<close>.\<close>

record numfmt =
  showNum :: "int \<Rightarrow> string"
  toFixed :: "real \<Rightarrow> nat \<Rightarrow> string"

text \<open>The fields that the assessment and the analysis result have in common; the
  risk score is a real number inside the \<^verbatim>\<open>if\<close> chain and an integer once rounded.\<close>

record 's assessment =
  result :: risk_tier
  riskScore :: 's
  confidence :: real
  explanation :: string
  recommendations :: "string list"
  detailedFindings :: "string list"

record 's risk_assessment = "'s assessment" +
  focusAreas :: "nat list"

text \<open>The locals of \<^verbatim>\<open>assessAnemiaRisk\<close> when the \<^verbatim>\<open>if\<close> chain is left: \<open>riskScore\<close> and
  \<open>confidence\<close> are not rounded yet. \<open>rnd\<close> is the value of \<^verbatim>\<open>Math.random()\<close>, which
  the taken branch calls once.\<close>

definition tierBranch ::
  "numfmt \<Rightarrow> real \<Rightarrow> real \<Rightarrow> real \<Rightarrow> real \<Rightarrow> real \<Rightarrow> real \<Rightarrow> real risk_assessment" where
  "tierBranch fmt rnd pallorIndex hemoglobinEstimate r g b =
     (if pallorIndex < 0.2 \<and> hemoglobinEstimate \<ge> 12.0 then
        \<lparr> result = Normal, riskScore = pallorIndex * 50,
          confidence = 92 + rnd * 6,
          explanation =
            ''Color analysis indicates healthy skin coloration with good red blood cell oxygenation. Red channel intensity ('' @
            showNum fmt (Math_round r) @
            '') and overall color balance suggest normal hemoglobin levels around '' @
            toFixed fmt hemoglobinEstimate 1 @ '' g/dL.'',
          recommendations =
            [''Continue maintaining a balanced diet rich in iron, vitamin B12, and folate'',
             ''Regular physical activity to support healthy circulation'',
             ''Monitor for any changes in energy levels, skin color, or symptoms'',
             ''Consider routine blood work in 6-12 months for preventive screening''],
          detailedFindings =
            [''Normal red channel intensity: '' @ showNum fmt (Math_round r) @ ''/255'',
             ''Healthy pallor index: '' @ toFixed fmt pallorIndex 2 @ '' (normal < 0.3)'',
             ''Estimated hemoglobin: '' @ toFixed fmt hemoglobinEstimate 1 @
               '' g/dL (normal range)''],
          focusAreas = [] \<rparr>
      else if pallorIndex < 0.4 \<and> hemoglobinEstimate \<ge> 10.0 then
        \<lparr> result = MildRisk, riskScore = 25 + pallorIndex * 40,
          confidence = 87 + rnd * 8,
          explanation =
            ''Mild pallor detected with slightly reduced red coloration. This may indicate early-stage iron deficiency or mild anemia. The estimated hemoglobin level of '' @
            toFixed fmt hemoglobinEstimate 1 @ '' g/dL suggests monitoring is recommended.'',
          recommendations =
            [''Increase iron-rich foods (lean meats, spinach, lentils, fortified cereals)'',
             ''Consider vitamin C with iron-rich meals to enhance absorption'',
             ''Monitor symptoms like fatigue, weakness, or shortness of breath'',
             ''Schedule blood work (CBC with iron studies) within 2-4 weeks'',
             ''Consult healthcare provider if symptoms worsen''],
          detailedFindings =
            [''Reduced red intensity: '' @ showNum fmt (Math_round r) @
               ''/255 (below optimal)'',
             ''Mild pallor index: '' @ toFixed fmt pallorIndex 2 @
               '' (elevated but manageable)'',
             ''Estimated hemoglobin: '' @ toFixed fmt hemoglobinEstimate 1 @
               '' g/dL (borderline low)''],
          focusAreas = [30, 40, 50, 60] \<rparr>
      else if pallorIndex < 0.6 \<and> hemoglobinEstimate \<ge> 8.0 then
        \<lparr> result = HighRisk, riskScore = 55 + pallorIndex * 30,
          confidence = 89 + rnd * 6,
          explanation =
            ''Significant pallor detected indicating probable anemia. Color analysis shows markedly reduced red coloration and overall paleness consistent with moderate anemia. Estimated hemoglobin of '' @
            toFixed fmt hemoglobinEstimate 1 @ '' g/dL requires medical attention.'',
          recommendations =
            [''Seek immediate medical evaluation for comprehensive blood work'',
             ''Iron supplementation may be necessary (under medical supervision)'',
             ''Investigate underlying causes (dietary, gastrointestinal, gynecological)'',
             ''Monitor symptoms closely (fatigue, dizziness, rapid heartbeat)'',
             ''Consider iron-rich diet modifications while awaiting medical care''],
          detailedFindings =
            [''Significantly reduced red intensity: '' @ showNum fmt (Math_round r) @ ''/255'',
             ''High pallor index: '' @ toFixed fmt pallorIndex 2 @ '' (concerning level)'',
             ''Low estimated hemoglobin: '' @ toFixed fmt hemoglobinEstimate 1 @
               '' g/dL (likely anemic)'',
             ''Color pattern consistent with iron deficiency anemia''],
          focusAreas = [20, 30, 40, 50, 60, 70] \<rparr>
      else
        \<lparr> result = SevereRisk, riskScore = 75 + pallorIndex * 25,
          confidence = 94 + rnd * 4,
          explanation =
            ''Severe pallor detected indicating significant anemia requiring immediate medical attention. The marked absence of red coloration and overall pale appearance suggests severely reduced hemoglobin levels around '' @
            toFixed fmt hemoglobinEstimate 1 @ '' g/dL.'',
          recommendations =
            [''URGENT: Seek immediate medical attention or emergency care'',
             ''Comprehensive blood work and medical evaluation required'',
             ''May require iron infusion or other aggressive treatment'',
             ''Investigate serious underlying causes (bleeding, malabsorption, chronic disease)'',
             ''Monitor for severe symptoms (chest pain, severe fatigue, fainting)''],
          detailedFindings =
            [''Severely reduced red intensity: '' @ showNum fmt (Math_round r) @
               ''/255 (critical)'',
             ''Very high pallor index: '' @ toFixed fmt pallorIndex 2 @ '' (severe)'',
             ''Very low estimated hemoglobin: '' @ toFixed fmt hemoglobinEstimate 1 @
               '' g/dL (severely anemic)'',
             ''Color pattern indicates severe iron deficiency or other serious anemia''],
          focusAreas = [10, 20, 30, 40, 50, 60, 70, 80] \<rparr>)"

definition assessAnemiaRisk ::
  "numfmt \<Rightarrow> real \<Rightarrow> real \<Rightarrow> real \<Rightarrow> real \<Rightarrow> real \<Rightarrow> real \<Rightarrow> int risk_assessment" where
  "assessAnemiaRisk fmt rnd pallorIndex hemoglobinEstimate r g b =
     (let br = tierBranch fmt rnd pallorIndex hemoglobinEstimate r g b
      in \<lparr> result = result br,
           riskScore = Math_round (riskScore br),
           confidence = of_int (Math_round (confidence br * 10)) / 10,
           explanation = explanation br,
           recommendations = recommendations br,
           detailedFindings = detailedFindings br,
           focusAreas = focusAreas br \<rparr>)"

subsection \<open>Canvases and the heatmap: \<^verbatim>\<open>generateGradCAM\<close>\<close>

text \<open>A canvas is its size and what has been drawn on it, in order. Coordinates are
  numbers; \<open>DrawBitmap\<close> is \<^verbatim>\<open>drawImage\<close> of a decoded image, \<open>DrawCanvas\<close> is
  \<^verbatim>\<open>drawImage\<close> of another canvas; each operation records the \<^verbatim>\<open>globalAlpha\<close> it was
  drawn with.\<close>

record color_stop =
  stopOffset :: real
  stopRed :: nat
  stopGreen :: nat
  stopBlue :: nat
  stopAlpha :: real

record radial_gradient =
  gradX0 :: real
  gradY0 :: real
  gradR0 :: real
  gradX1 :: real
  gradY1 :: real
  gradR1 :: real
  colorStops :: "color_stop list"

datatype draw_op =
    DrawBitmap real nat nat "8 word list" real real
  | DrawCanvas real nat nat "draw_op list" real real
  | FillRect real radial_gradient real real real real

record bitmap =
  width :: nat
  height :: nat

record canvas = bitmap +
  ops :: "draw_op list"

text \<open>The string \<^verbatim>\<open>generateGradCAM\<close> returns: empty, or \<^verbatim>\<open>toDataURL()\<close> of the canvas
  it has drawn; the encoding is the browser's, so the value kept is the canvas.\<close>

datatype data_url = EmptyString | DataURL canvas

text \<open>One call of the \<^verbatim>\<open>forEach\<close> callback.\<close>

definition focusRect :: "canvas \<Rightarrow> nat \<Rightarrow> nat \<Rightarrow> draw_op" where
  "focusRect cv intensity index =
     (let x = real (index mod 3) * (real (width cv) / 3);
          y = real (index div 3) * (real (height cv) / 3);
          w = real (width cv) / 3;
          h = real (height cv) / 3;
          a = real intensity / 100;
          gradient =
            \<lparr> gradX0 = x + w / 2, gradY0 = y + h / 2, gradR0 = 0,
              gradX1 = x + w / 2, gradY1 = y + h / 2, gradR1 = w / 2,
              colorStops =
                [\<lparr> stopOffset = 0, stopRed = 255, stopGreen = 0, stopBlue = 0,
                   stopAlpha = a \<rparr>,
                 \<lparr> stopOffset = 0.5, stopRed = 255, stopGreen = 165, stopBlue = 0,
                   stopAlpha = a * 0.7 \<rparr>,
                 \<lparr> stopOffset = 1, stopRed = 255, stopGreen = 255, stopBlue = 0,
                   stopAlpha = a * 0.3 \<rparr>] \<rparr>
      in FillRect 0.4 gradient x y w h)"

text \<open>\<open>gradCtx\<close> tells whether \<^verbatim>\<open>gradCanvas.getContext('2d')\<close> gave a context.\<close>

definition generateGradCAM :: "bool \<Rightarrow> canvas \<Rightarrow> nat list \<Rightarrow> data_url" where
  "generateGradCAM gradCtx cv areas =
     (if \<not> gradCtx then EmptyString
      else DataURL
        \<lparr> width = width cv, height = height cv,
          ops = DrawCanvas 0.6 (width cv) (height cv) (ops cv) 0 0 #
                map (\<lambda>(index, intensity). focusRect cv intensity index)
                  (zip [0 ..< length areas] areas) \<rparr>)"

subsection \<open>The analysis result and the fallback: \<^verbatim>\<open>getDefaultResult\<close>\<close>

record colorAnalysis_t =
  redChannel :: int
  greenChannel :: int
  blueChannel :: int
  avgBrightness :: int
  pallorIndex :: real
  hemoglobinEstimate :: real

record AnalysisResult = "int assessment" +
  gradCamUrl :: data_url
  timestamp :: int
  colorAnalysis :: colorAnalysis_t

text \<open>\<open>date\<close> is the value of \<^verbatim>\<open>new Date()\<close>, in milliseconds.\<close>

definition getDefaultResult :: "int \<Rightarrow> AnalysisResult" where
  "getDefaultResult date =
     \<lparr> result = MildRisk,
       riskScore = 25,
       confidence = 85.0,
       explanation =
         ''Unable to perform detailed color analysis. Please ensure good lighting and clear skin visibility for more accurate results.'',
       recommendations =
         [''Retake image with better lighting and clearer skin visibility'',
          ''Consider professional medical evaluation if symptoms persist'',
          ''Monitor for signs of fatigue, weakness, or pale appearance''],
       detailedFindings = [''Color analysis unavailable due to image processing error''],
       gradCamUrl = EmptyString,
       timestamp = date,
       colorAnalysis =
         \<lparr> redChannel = 0, greenChannel = 0, blueChannel = 0, avgBrightness = 0,
           pallorIndex = 0, hemoglobinEstimate = 0 \<rparr> \<rparr>"

subsection \<open>The sampling pass\<close>

text \<open>The running sums of the loop in \<^verbatim>\<open>analyzeAnemiaFromImage\<close>.\<close>

record skin_acc =
  totalR :: real
  totalG :: real
  totalB :: real
  totalBrightness :: real
  skinPixelCount :: nat

definition acc0 :: skin_acc where
  "acc0 = \<lparr> totalR = 0, totalG = 0, totalB = 0, totalBrightness = 0, skinPixelCount = 0 \<rparr>"

text \<open>\<^verbatim>\<open>pixels[i]\<close> on the byte buffer: a read past the end gives \<^verbatim>\<open>undefined\<close>.\<close>

definition byteAt :: "8 word list \<Rightarrow> nat \<Rightarrow> real option" where
  "byteAt pixels i = (if i < length pixels then Some (real (unat (pixels ! i))) else None)"

text \<open>
  The loop body at index \<open>i\<close>. With \<^verbatim>\<open>undefined\<close> operands JavaScript goes on:
  \<^verbatim>\<open>undefined < 128\<close> is false, so a pixel whose alpha is missing is not skipped; and
  \<^verbatim>\<open>isSkinPixel\<close> with a channel missing returns 0.0 (every comparison of
  \<^verbatim>\<open>rgbSkinCheck\<close> and of the saturation range is false on \<^verbatim>\<open>undefined\<close> and NaN), so
  such a pixel is not counted. The buffer of an \<^verbatim>\<open>ImageData\<close> has four bytes for each
  pixel and neither case arises there.
\<close>

definition sampleStep :: "8 word list \<Rightarrow> nat \<Rightarrow> skin_acc \<Rightarrow> skin_acc" where
  "sampleStep pixels i acc =
     (if (case byteAt pixels (i + 3) of Some a \<Rightarrow> a < 128 | None \<Rightarrow> False) then acc
      else
        (case (byteAt pixels i, byteAt pixels (i + 1), byteAt pixels (i + 2)) of
           (Some r, Some g, Some b) \<Rightarrow>
             (let skinLikelihood = isSkinPixel r g b
              in if skinLikelihood > 0.6
                 then \<lparr> totalR = totalR acc + r,
                        totalG = totalG acc + g,
                        totalB = totalB acc + b,
                        totalBrightness = totalBrightness acc + (r + g + b) / 3,
                        skinPixelCount = skinPixelCount acc + 1 \<rparr>
                 else acc)
         | _ \<Rightarrow> acc))"

text \<open>\<^verbatim>\<open>for (let i = 0; i < pixels.length; i += 16)\<close>, from index \<open>i\<close> on.\<close>

function samplePixels :: "8 word list \<Rightarrow> nat \<Rightarrow> skin_acc \<Rightarrow> skin_acc" where
  "samplePixels pixels i acc =
     (if i < length pixels then samplePixels pixels (i + 16) (sampleStep pixels i acc)
      else acc)"
  by pat_completeness auto
termination
  by (relation "measure (\<lambda>(pixels, i, acc). length pixels - i)") auto

declare samplePixels.simps [simp del]

subsection \<open>The whole analysis: \<^verbatim>\<open>analyzeAnemiaFromImage\<close>\<close>

text \<open>The image element once \<^verbatim>\<open>img.src\<close> is set: \<^verbatim>\<open>onerror\<close> fires, or \<^verbatim>\<open>onload\<close> fires
  with an image of some width and height whose pixels, drawn on the canvas and read
  back by \<^verbatim>\<open>getImageData\<close>, are the bytes \<open>data\<close> (red, green, blue, alpha). The
  caller passes the data URL of the chosen file, so the canvas is never tainted.\<close>

record image = bitmap +
  data :: "8 word list"

datatype load_outcome = LoadError | Loaded image

text \<open>What the runtime supplies to one run.\<close>

record runtime = numfmt +
  mathRandom :: real
  dateNow :: int
  ctx2d :: bool
  gradCtx2d :: bool

text \<open>The promise: resolved with a result, or never settled. The promise has no
  \<^verbatim>\<open>reject\<close>; it stays pending when \<^verbatim>\<open>onload\<close> throws, which \<^verbatim>\<open>getImageData\<close> does
  (IndexSizeError) for a width or height of zero.\<close>

datatype promise = Resolved AnalysisResult | Pending

definition analyzeAnemiaFromImage :: "runtime \<Rightarrow> load_outcome \<Rightarrow> promise" where
  "analyzeAnemiaFromImage rt outcome =
     (case outcome of
        LoadError \<Rightarrow> Resolved (getDefaultResult (dateNow rt))
      | Loaded img \<Rightarrow>
          if \<not> ctx2d rt then Resolved (getDefaultResult (dateNow rt))
          else if width img = 0 \<or> height img = 0 then Pending
          else
            (let cv = \<lparr> width = width img, height = height img,
                        ops = [DrawBitmap 1 (width img) (height img) (data img) 0 0] \<rparr>;
                 pixels = data img;
                 acc = samplePixels pixels 0 acc0
             in if skinPixelCount acc = 0 then Resolved (getDefaultResult (dateNow rt))
                else
                  (let n = real (skinPixelCount acc);
                       avgR = totalR acc / n;
                       avgG = totalG acc / n;
                       avgB = totalB acc / n;
                       avgBr = totalBrightness acc / n;
                       pallor = calculatePallorIndex avgR avgG avgB avgBr;
                       hemoglobin = estimateHemoglobin avgR avgG avgB pallor;
                       riskAssessment =
                         assessAnemiaRisk (numfmt.truncate rt) (mathRandom rt)
                           pallor hemoglobin avgR avgG avgB
                   in Resolved
                        \<lparr> result = result riskAssessment,
                          riskScore = riskScore riskAssessment,
                          confidence = confidence riskAssessment,
                          explanation = explanation riskAssessment,
                          recommendations = recommendations riskAssessment,
                          detailedFindings = detailedFindings riskAssessment,
                          gradCamUrl =
                            generateGradCAM (gradCtx2d rt) cv (focusAreas riskAssessment),
                          timestamp = dateNow rt,
                          colorAnalysis =
                            \<lparr> redChannel = Math_round avgR,
                              greenChannel = Math_round avgG,
                              blueChannel = Math_round avgB,
                              avgBrightness = Math_round avgBr,
                              pallorIndex = of_int (Math_round (pallor * 100)) / 100,
                              hemoglobinEstimate =
                                of_int (Math_round (hemoglobin * 10)) / 10 \<rparr> \<rparr>)))"

section \<open>Specification-side definitions and test fixtures\<close>

text \<open>The tier table as the specification words it: the conditions in their fixed order, the
  unrounded score of each tier, and the number of focus areas of each tier.\<close>

definition spec_tier :: "real \<Rightarrow> real \<Rightarrow> risk_tier" where
  "spec_tier p h =
     (if p < 0.2 \<and> h \<ge> 12.0 then Normal
      else if p < 0.4 \<and> h \<ge> 10.0 then MildRisk
      else if p < 0.6 \<and> h \<ge> 8.0 then HighRisk
      else SevereRisk)"

fun spec_riskScore :: "risk_tier \<Rightarrow> real \<Rightarrow> real" where
  "spec_riskScore Normal p = p * 50"
| "spec_riskScore MildRisk p = 25 + p * 40"
| "spec_riskScore HighRisk p = 55 + p * 30"
| "spec_riskScore SevereRisk p = 75 + p * 25"

fun spec_focusCount :: "risk_tier \<Rightarrow> nat" where
  "spec_focusCount Normal = 0"
| "spec_focusCount MildRisk = 4"
| "spec_focusCount HighRisk = 6"
| "spec_focusCount SevereRisk = 8"

text \<open>The skin test as the specification words it. Hue, saturation and value are those of the
  usual conversion from RGB to HSV: the hue in degrees, by the sector of the largest channel,
  with no remainder operation; the saturation is the spread over the largest channel; the
  value is the largest channel over 255. The score is 0.9 when the three ranges and the
  RGB heuristic hold, 0.7 when only the RGB heuristic holds, 0.5 when hue and saturation
  hold without it, and 0.0 otherwise.\<close>

definition spec_hue :: "real \<Rightarrow> real \<Rightarrow> real \<Rightarrow> real" where
  "spec_hue r g b =
     (let mx = max r (max g b); mn = min r (min g b); d = mx - mn
      in if d = 0 then 0
         else if mx = r then (if g \<ge> b then 60 * ((g - b) / d) else 360 + 60 * ((g - b) / d))
         else if mx = g then 120 + 60 * ((b - r) / d)
         else 240 + 60 * ((r - g) / d))"

definition spec_saturation :: "real \<Rightarrow> real \<Rightarrow> real \<Rightarrow> real" where
  "spec_saturation r g b =
     (let mx = max r (max g b); mn = min r (min g b)
      in if mx = 0 then 0 else (mx - mn) / mx)"

definition spec_value :: "real \<Rightarrow> real \<Rightarrow> real \<Rightarrow> real" where
  "spec_value r g b = max r (max g b) / 255"

definition spec_hueRange :: "real \<Rightarrow> real \<Rightarrow> real \<Rightarrow> bool" where
  "spec_hueRange r g b =
     ((0 \<le> spec_hue r g b \<and> spec_hue r g b \<le> 25) \<or>
      (340 \<le> spec_hue r g b \<and> spec_hue r g b \<le> 360))"

definition spec_satRange :: "real \<Rightarrow> real \<Rightarrow> real \<Rightarrow> bool" where
  "spec_satRange r g b = (0.15 \<le> spec_saturation r g b \<and> spec_saturation r g b \<le> 0.68)"

definition spec_valRange :: "real \<Rightarrow> real \<Rightarrow> real \<Rightarrow> bool" where
  "spec_valRange r g b = (0.35 \<le> spec_value r g b \<and> spec_value r g b \<le> 0.95)"

definition spec_rgbHeuristic :: "real \<Rightarrow> real \<Rightarrow> real \<Rightarrow> bool" where
  "spec_rgbHeuristic r g b =
     (r > 95 \<and> g > 40 \<and> b > 20 \<and> max r (max g b) - min r (min g b) > 15 \<and>
      \<bar>r - g\<bar> > 15 \<and> r > g \<and> r > b)"

definition spec_skinScore :: "real \<Rightarrow> real \<Rightarrow> real \<Rightarrow> real" where
  "spec_skinScore r g b =
     (if spec_hueRange r g b \<and> spec_satRange r g b \<and> spec_valRange r g b \<and>
         spec_rgbHeuristic r g b then 0.9
      else if spec_rgbHeuristic r g b then 0.7
      else if spec_hueRange r g b \<and> spec_satRange r g b then 0.5
      else 0.0)"

text \<open>A sampled opaque pixel: the loop visits index \<open>i\<close> (every sixteenth byte), the pixel
  lies inside the buffer and its alpha is not below 128.\<close>

definition sampledOpaque :: "8 word list \<Rightarrow> nat \<Rightarrow> bool" where
  "sampledOpaque pixels i =
     (i mod 16 = 0 \<and> i + 3 < length pixels \<and> \<not> unat (pixels ! (i + 3)) < 128)"

text \<open>Every sampled opaque pixel is the mid-tone (220, 170, 140).\<close>

definition uniformSkin :: "8 word list \<Rightarrow> bool" where
  "uniformSkin pixels =
     (\<forall>i \<in> set [0 ..< length pixels]. sampledOpaque pixels i \<longrightarrow>
        pixels ! i = 220 \<and> pixels ! (i + 1) = 170 \<and> pixels ! (i + 2) = 140)"

text \<open>Alpha is zero at every pixel.\<close>

definition fullyTransparent :: "8 word list \<Rightarrow> bool" where
  "fullyTransparent pixels =
     (\<forall>j \<in> set [0 ..< length pixels]. j mod 4 = 3 \<longrightarrow> pixels ! j = 0)"

text \<open>Invariants of the running sums: all counted pixels are (220, 170, 140); and, for any
  buffer, each sum lies between zero and 255 times the count.\<close>

definition uniformAcc :: "skin_acc \<Rightarrow> bool" where
  "uniformAcc acc =
     (totalR acc = 220 * real (skinPixelCount acc) \<and>
      totalG acc = 170 * real (skinPixelCount acc) \<and>
      totalB acc = 140 * real (skinPixelCount acc) \<and>
      totalBrightness acc = 530 / 3 * real (skinPixelCount acc))"

definition boundedAcc :: "skin_acc \<Rightarrow> bool" where
  "boundedAcc acc =
     (0 \<le> totalR acc \<and> totalR acc \<le> 255 * real (skinPixelCount acc) \<and>
      0 \<le> totalG acc \<and> totalG acc \<le> 255 * real (skinPixelCount acc) \<and>
      0 \<le> totalB acc \<and> totalB acc \<le> 255 * real (skinPixelCount acc) \<and>
      0 \<le> totalBrightness acc \<and> totalBrightness acc \<le> 255 * real (skinPixelCount acc))"

text \<open>Fixtures: a runtime that renders every number as the empty string, returns 0 from
  \<^verbatim>\<open>Math.random()\<close> and has both drawing contexts; an image of one opaque
  (220, 170, 140) pixel.\<close>

definition plainFmt :: numfmt where
  "plainFmt = \<lparr> showNum = (\<lambda>n. []), toFixed = (\<lambda>x d. []) \<rparr>"

definition plainRuntime :: "int \<Rightarrow> runtime" where
  "plainRuntime date =
     \<lparr> showNum = (\<lambda>n. []), toFixed = (\<lambda>x d. []), mathRandom = 0, dateNow = date,
       ctx2d = True, gradCtx2d = True \<rparr>"

definition skinPixelImage :: image where
  "skinPixelImage = \<lparr> width = 1, height = 1, data = [220, 170, 140, 255] \<rparr>"

section \<open>Auxiliary facts\<close>

subsection \<open>The classifier, field by field\<close>

lemma tierBranch_result:
  "result (tierBranch fmt rnd p h r g b) =
     (if p < 0.2 \<and> h \<ge> 12 then Normal
      else if p < 0.4 \<and> h \<ge> 10 then MildRisk
      else if p < 0.6 \<and> h \<ge> 8 then HighRisk
      else SevereRisk)"
  by (simp add: tierBranch_def)

lemma tierBranch_riskScore:
  "riskScore (tierBranch fmt rnd p h r g b) =
     (if p < 0.2 \<and> h \<ge> 12 then p * 50
      else if p < 0.4 \<and> h \<ge> 10 then 25 + p * 40
      else if p < 0.6 \<and> h \<ge> 8 then 55 + p * 30
      else 75 + p * 25)"
  by (simp add: tierBranch_def)

lemma tierBranch_focusAreas:
  "focusAreas (tierBranch fmt rnd p h r g b) =
     (if p < 0.2 \<and> h \<ge> 12 then []
      else if p < 0.4 \<and> h \<ge> 10 then [30, 40, 50, 60]
      else if p < 0.6 \<and> h \<ge> 8 then [20, 30, 40, 50, 60, 70]
      else [10, 20, 30, 40, 50, 60, 70, 80])"
  by (simp add: tierBranch_def)

lemma tierBranch_confidence:
  "confidence (tierBranch fmt rnd p h r g b) =
     (if p < 0.2 \<and> h \<ge> 12 then 92 + rnd * 6
      else if p < 0.4 \<and> h \<ge> 10 then 87 + rnd * 8
      else if p < 0.6 \<and> h \<ge> 8 then 89 + rnd * 6
      else 94 + rnd * 4)"
  by (simp add: tierBranch_def)

lemma assess_result:
  "result (assessAnemiaRisk fmt rnd p h r g b) = result (tierBranch fmt rnd p h r g b)"
  by (simp add: assessAnemiaRisk_def Let_def)

lemma assess_riskScore:
  "riskScore (assessAnemiaRisk fmt rnd p h r g b) =
     Math_round (riskScore (tierBranch fmt rnd p h r g b))"
  by (simp add: assessAnemiaRisk_def Let_def)

lemma assess_focusAreas:
  "focusAreas (assessAnemiaRisk fmt rnd p h r g b) = focusAreas (tierBranch fmt rnd p h r g b)"
  by (simp add: assessAnemiaRisk_def Let_def)

lemma assess_confidence:
  "confidence (assessAnemiaRisk fmt rnd p h r g b) =
     of_int (Math_round (confidence (tierBranch fmt rnd p h r g b) * 10)) / 10"
  by (simp add: assessAnemiaRisk_def Let_def)

lemma assess_recommendations:
  "recommendations (assessAnemiaRisk fmt rnd p h r g b) =
   recommendations (tierBranch fmt' rnd' p h r' g' b')"
  by (simp add: assessAnemiaRisk_def tierBranch_def Let_def)

lemma assess_explanation:
  "explanation (assessAnemiaRisk fmt rnd p h r g b) = explanation (tierBranch fmt 0 p h r g b)"
  by (simp add: assessAnemiaRisk_def tierBranch_def Let_def)

lemma assess_detailedFindings:
  "detailedFindings (assessAnemiaRisk fmt rnd p h r g b) =
   detailedFindings (tierBranch fmt 0 p h r g b)"
  by (simp add: assessAnemiaRisk_def tierBranch_def Let_def)

lemma Math_round_mono: "x \<le> y \<Longrightarrow> Math_round x \<le> Math_round y"
  by (simp add: Math_round_def floor_mono)

lemma Math_round_range: "0 \<le> x \<Longrightarrow> x \<le> 100 \<Longrightarrow> 0 \<le> Math_round x \<and> Math_round x \<le> 100"
  unfolding Math_round_def by (simp add: floor_le_iff le_floor_iff)

lemma calculatePallorIndex_nonneg:
  assumes "0 \<le> r" "r \<le> 255" "0 \<le> g" "g \<le> 255"
  shows "0 \<le> calculatePallorIndex r g b br"
proof -
  have "\<bar>r - g\<bar> \<le> 255" using assms by simp
  then have "0 \<le> (1 - \<bar>r - g\<bar> / 255) * 0.2" by simp
  moreover have "0 \<le> max 0 ((200 - r) / 200) * 0.5" by simp
  moreover have "0 \<le> max 0 ((220 - br) / 220) * 0.3" by simp
  ultimately show ?thesis
    by (simp add: calculatePallorIndex_def Let_def)
qed

lemma calculatePallorIndex_le_one:
  assumes "0 \<le> r" "0 \<le> br"
  shows "calculatePallorIndex r g b br \<le> 1"
proof -
  have a: "max 0 ((200 - r) / 200) \<le> 1" using assms by simp
  have c: "max 0 ((220 - br) / 220) \<le> 1" using assms by simp
  have d: "1 - \<bar>r - g\<bar> / 255 \<le> 1" by simp
  have "max 0 ((200 - r) / 200) * 0.5 + max 0 ((220 - br) / 220) * 0.3 +
        (1 - \<bar>r - g\<bar> / 255) * 0.2 \<le> 1 * 0.5 + 1 * 0.3 + 1 * 0.2"
    using a c d by (intro add_mono mult_right_mono) simp_all
  then show ?thesis
    by (simp add: calculatePallorIndex_def Let_def)
qed

lemma tier_score_range:
  assumes "0 \<le> p"
  shows "case result (tierBranch fmt rnd p h r g b) of
           Normal \<Rightarrow> 0 \<le> riskScore (tierBranch fmt rnd p h r g b) \<and>
                     riskScore (tierBranch fmt rnd p h r g b) < 10
         | MildRisk \<Rightarrow> 25 \<le> riskScore (tierBranch fmt rnd p h r g b) \<and>
                     riskScore (tierBranch fmt rnd p h r g b) < 41
         | HighRisk \<Rightarrow> 55 \<le> riskScore (tierBranch fmt rnd p h r g b) \<and>
                     riskScore (tierBranch fmt rnd p h r g b) < 73
         | SevereRisk \<Rightarrow> 75 \<le> riskScore (tierBranch fmt rnd p h r g b)"
  using assms by (simp add: tierBranch_result tierBranch_riskScore)

lemma tier_score_strict:
  assumes "0 \<le> p1" "0 \<le> p2"
    and "severity (result (tierBranch fmt1 rnd1 p1 h1 r1 g1 b1)) <
         severity (result (tierBranch fmt2 rnd2 p2 h2 r2 g2 b2))"
  shows "riskScore (tierBranch fmt1 rnd1 p1 h1 r1 g1 b1) <
         riskScore (tierBranch fmt2 rnd2 p2 h2 r2 g2 b2)"
proof -
  note A = tier_score_range [OF assms(1), of fmt1 rnd1 h1 r1 g1 b1]
  note B = tier_score_range [OF assms(2), of fmt2 rnd2 h2 r2 g2 b2]
  show ?thesis
    using A B assms(3)
    by (cases "result (tierBranch fmt1 rnd1 p1 h1 r1 g1 b1)";
        cases "result (tierBranch fmt2 rnd2 p2 h2 r2 g2 b2)") simp_all
qed

lemma tier_score_percent:
  assumes "0 \<le> p" "p \<le> 1"
  shows "0 \<le> riskScore (tierBranch fmt rnd p h r g b) \<and>
         riskScore (tierBranch fmt rnd p h r g b) \<le> 100"
  using assms by (simp add: tierBranch_riskScore)

subsection \<open>The hue of the code is the hue of the conversion\<close>

text \<open>The code computes the hue with two remainder operations; on every pixel they come
  out as the sector formula.\<close>

lemma js_rem_6_small:
  assumes "- 1 \<le> x" "x \<le> 1"
  shows "js_rem x 6 = x"
proof (cases "x / 6 < 0")
  case True
  have "\<lceil>x / 6\<rceil> = 0"
    using True assms by (intro ceiling_unique) simp_all
  then show ?thesis using True by (simp add: js_rem_def)
next
  case False
  have "\<lfloor>x / 6\<rfloor> = 0"
    using False assms by (intro floor_unique) simp_all
  then show ?thesis using False by (simp add: js_rem_def)
qed

lemma js_rem_hue:
  assumes "- 6 \<le> x" "x < 6"
  shows "js_rem (x * 60 + 360) 360 = (if x < 0 then x * 60 + 360 else x * 60)"
proof (cases "x < 0")
  case True
  have "\<lfloor>(x * 60 + 360) / 360\<rfloor> = 0"
    using True assms by (intro floor_unique) simp_all
  moreover have "\<not> (x * 60 + 360) / 360 < 0" using assms by simp
  ultimately show ?thesis using True by (simp add: js_rem_def)
next
  case False
  have "\<lfloor>(x * 60 + 360) / 360\<rfloor> = 1"
    using False assms by (intro floor_unique) simp_all
  moreover have "\<not> (x * 60 + 360) / 360 < 0" using assms by simp
  ultimately show ?thesis using False by (simp add: js_rem_def)
qed

lemma ratio_bounds:
  fixes u d :: real
  assumes "0 < d" "- d \<le> u" "u \<le> d"
  shows "- 1 \<le> u / d" "u / d \<le> 1"
  using assms by (simp_all add: pos_le_divide_eq pos_divide_le_eq)

lemma hsv_h_cases:
  "hsv_delta r g b = 0 \<Longrightarrow> hsv_h r g b = js_rem (0 * 60 + 360) 360"
  "hsv_delta r g b \<noteq> 0 \<Longrightarrow> hsv_max r g b = r \<Longrightarrow>
     hsv_h r g b = js_rem (js_rem ((g - b) / hsv_delta r g b) 6 * 60 + 360) 360"
  "hsv_delta r g b \<noteq> 0 \<Longrightarrow> hsv_max r g b \<noteq> r \<Longrightarrow> hsv_max r g b = g \<Longrightarrow>
     hsv_h r g b = js_rem (((b - r) / hsv_delta r g b + 2) * 60 + 360) 360"
  "hsv_delta r g b \<noteq> 0 \<Longrightarrow> hsv_max r g b \<noteq> r \<Longrightarrow> hsv_max r g b \<noteq> g \<Longrightarrow>
     hsv_h r g b = js_rem (((r - g) / hsv_delta r g b + 4) * 60 + 360) 360"
  by (simp_all add: hsv_h_def Let_def)

lemma hsv_locals:
  "hsv_max r g b = max r (max g b)"
  "hsv_delta r g b = max r (max g b) - min r (min g b)"
  by (simp_all add: hsv_max_def hsv_min_def hsv_delta_def max.assoc min.assoc)

lemma spec_hue_cases:
  "hsv_delta r g b = 0 \<Longrightarrow> spec_hue r g b = 0"
  "hsv_delta r g b \<noteq> 0 \<Longrightarrow> hsv_max r g b = r \<Longrightarrow>
     spec_hue r g b = (if g \<ge> b then 60 * ((g - b) / hsv_delta r g b)
                       else 360 + 60 * ((g - b) / hsv_delta r g b))"
  "hsv_delta r g b \<noteq> 0 \<Longrightarrow> hsv_max r g b \<noteq> r \<Longrightarrow> hsv_max r g b = g \<Longrightarrow>
     spec_hue r g b = 120 + 60 * ((b - r) / hsv_delta r g b)"
  "hsv_delta r g b \<noteq> 0 \<Longrightarrow> hsv_max r g b \<noteq> r \<Longrightarrow> hsv_max r g b \<noteq> g \<Longrightarrow>
     spec_hue r g b = 240 + 60 * ((r - g) / hsv_delta r g b)"
  unfolding spec_hue_def Let_def hsv_locals
  by (simp_all only: if_True if_False refl)

lemma hsv_h_is_spec_hue: "hsv_h r g b = spec_hue r g b"
proof (cases "hsv_delta r g b = 0")
  case True
  have "js_rem (0 * 60 + 360) 360 = 0"
    using js_rem_hue [of 0] by simp
  then show ?thesis
    by (simp only: hsv_h_cases(1) [OF True] spec_hue_cases(1) [OF True])
next
  case False
  define d where "d = hsv_delta r g b"
  have d: "d = max r (max g b) - min r (min g b)"
    by (simp only: d_def hsv_locals)
  have dpos: "0 < d" using False d unfolding d_def [symmetric] by linarith
  show ?thesis
  proof (cases "hsv_max r g b = r")
    case True
    define x where "x = (g - b) / d"
    have "max r (max g b) = r" using True by (simp only: hsv_locals)
    then have b1: "- d \<le> g - b" "g - b \<le> d" using d by linarith+
    have rb: "- 1 \<le> x" "x \<le> 1"
      unfolding x_def by (rule ratio_bounds [OF dpos b1])+
    have sg: "x < 0 \<longleftrightarrow> \<not> g \<ge> b"
      unfolding x_def using dpos by (auto simp add: divide_less_0_iff)
    have "hsv_h r g b = js_rem (js_rem x 6 * 60 + 360) 360"
      unfolding x_def d_def by (rule hsv_h_cases(2) [OF False True])
    also have "js_rem x 6 = x" by (rule js_rem_6_small [OF rb])
    also have "js_rem (x * 60 + 360) 360 = (if x < 0 then x * 60 + 360 else x * 60)"
      using rb by (intro js_rem_hue) linarith+
    also have "\<dots> = (if g \<ge> b then 60 * x else 360 + 60 * x)"
      using sg by simp
    also have "\<dots> = spec_hue r g b"
      unfolding x_def d_def by (rule spec_hue_cases(2) [OF False True, symmetric])
    finally show ?thesis .
  next
    case nr: False
    show ?thesis
    proof (cases "hsv_max r g b = g")
      case True
      define x where "x = (b - r) / d"
      have "max r (max g b) = g" using True by (simp only: hsv_locals)
      then have b1: "- d \<le> b - r" "b - r \<le> d" using d by linarith+
      have rb: "- 1 \<le> x" "x \<le> 1"
        unfolding x_def by (rule ratio_bounds [OF dpos b1])+
      have "hsv_h r g b = js_rem ((x + 2) * 60 + 360) 360"
        unfolding x_def d_def by (rule hsv_h_cases(3) [OF False nr True])
      also have "\<dots> = (if x + 2 < 0 then (x + 2) * 60 + 360 else (x + 2) * 60)"
        using rb by (intro js_rem_hue) linarith+
      also have "\<dots> = 120 + 60 * x" using rb by simp
      also have "\<dots> = spec_hue r g b"
        unfolding x_def d_def by (rule spec_hue_cases(3) [OF False nr True, symmetric])
      finally show ?thesis .
    next
      case ng: False
      define x where "x = (r - g) / d"
      have "max r (max g b) \<noteq> r" using nr unfolding hsv_locals .
      moreover have "max r (max g b) \<noteq> g" using ng unfolding hsv_locals .
      ultimately have b1: "- d \<le> r - g" "r - g \<le> d" using d by linarith+
      have rb: "- 1 \<le> x" "x \<le> 1"
        unfolding x_def by (rule ratio_bounds [OF dpos b1])+
      have "hsv_h r g b = js_rem ((x + 4) * 60 + 360) 360"
        unfolding x_def d_def by (rule hsv_h_cases(4) [OF False nr ng])
      also have "\<dots> = (if x + 4 < 0 then (x + 4) * 60 + 360 else (x + 4) * 60)"
        using rb by (intro js_rem_hue) linarith+
      also have "\<dots> = 240 + 60 * x" using rb by simp
      also have "\<dots> = spec_hue r g b"
        unfolding x_def d_def by (rule spec_hue_cases(4) [OF False nr ng, symmetric])
      finally show ?thesis .
    qed
  qed
qed

lemma spec_hue_range: "0 \<le> spec_hue r g b \<and> spec_hue r g b < 360"
proof (cases "hsv_delta r g b = 0")
  case True
  then show ?thesis by (simp only: spec_hue_cases(1) [OF True]) simp
next
  case False
  define d where "d = hsv_delta r g b"
  have d: "d = max r (max g b) - min r (min g b)"
    by (simp only: d_def hsv_locals)
  have dpos: "0 < d" using False d unfolding d_def [symmetric] by linarith
  show ?thesis
  proof (cases "hsv_max r g b = r")
    case True
    define x where "x = (g - b) / d"
    have "max r (max g b) = r" using True by (simp only: hsv_locals)
    then have b1: "- d \<le> g - b" "g - b \<le> d" using d by linarith+
    have rb: "- 1 \<le> x" "x \<le> 1"
      unfolding x_def by (rule ratio_bounds [OF dpos b1])+
    have sg: "x < 0 \<longleftrightarrow> \<not> g \<ge> b"
      unfolding x_def using dpos by (auto simp add: divide_less_0_iff)
    have "spec_hue r g b = (if g \<ge> b then 60 * x else 360 + 60 * x)"
      unfolding x_def d_def by (rule spec_hue_cases(2) [OF False True])
    then show ?thesis using rb sg by (simp split: if_splits)
  next
    case nr: False
    show ?thesis
    proof (cases "hsv_max r g b = g")
      case True
      define x where "x = (b - r) / d"
      have "max r (max g b) = g" using True by (simp only: hsv_locals)
      then have b1: "- d \<le> b - r" "b - r \<le> d" using d by linarith+
      have rb: "- 1 \<le> x" "x \<le> 1"
        unfolding x_def by (rule ratio_bounds [OF dpos b1])+
      have "spec_hue r g b = 120 + 60 * x"
        unfolding x_def d_def by (rule spec_hue_cases(3) [OF False nr True])
      then show ?thesis using rb by simp
    next
      case ng: False
      define x where "x = (r - g) / d"
      have "max r (max g b) \<noteq> r" using nr unfolding hsv_locals .
      moreover have "max r (max g b) \<noteq> g" using ng unfolding hsv_locals .
      ultimately have b1: "- d \<le> r - g" "r - g \<le> d" using d by linarith+
      have rb: "- 1 \<le> x" "x \<le> 1"
        unfolding x_def by (rule ratio_bounds [OF dpos b1])+
      have "spec_hue r g b = 240 + 60 * x"
        unfolding x_def d_def by (rule spec_hue_cases(4) [OF False nr ng])
      then show ?thesis using rb by simp
    qed
  qed
qed

lemma hsv_s_is_spec: "hsv_s r g b = spec_saturation r g b"
  by (simp add: hsv_s_def spec_saturation_def hsv_locals Let_def)

lemma hsv_v_is_spec: "hsv_v r g b = spec_value r g b"
  by (simp add: hsv_v_def spec_value_def hsv_locals)

lemma rgbSkinCheck_is_spec: "rgbSkinCheck r g b = spec_rgbHeuristic r g b"
  by (simp add: rgbSkinCheck_def spec_rgbHeuristic_def max.assoc min.assoc)

lemma skin_ranges_are_spec:
  "(skinHueRange1 r g b \<or> skinHueRange2 r g b) = spec_hueRange r g b"
  "skinSatRange r g b = spec_satRange r g b"
  "skinValRange r g b = spec_valRange r g b"
  by (simp_all add: skinHueRange1_def skinHueRange2_def skinSatRange_def skinValRange_def
      spec_hueRange_def spec_satRange_def spec_valRange_def
      hsv_h_is_spec_hue hsv_s_is_spec hsv_v_is_spec)

lemma isSkinPixel_is_spec: "isSkinPixel r g b = spec_skinScore r g b"
  unfolding isSkinPixel_def spec_skinScore_def
  by (simp only: skin_ranges_are_spec rgbSkinCheck_is_spec)

lemmas spec_skin_defs = spec_skinScore_def spec_hueRange_def spec_satRange_def
  spec_valRange_def spec_rgbHeuristic_def spec_hue_def spec_saturation_def spec_value_def
  Let_def

subsection \<open>The sampling loop\<close>

lemma isSkinPixel_uniform: "isSkinPixel 220 170 140 = 0.9"
  by (simp add: isSkinPixel_def skinHueRange1_def skinHueRange2_def skinSatRange_def
      skinValRange_def rgbSkinCheck_def hsv_h_def hsv_s_def hsv_v_def hsv_max_def
      hsv_delta_def hsv_min_def js_rem_def Let_def)

lemma sampled_alpha_in_range:
  assumes "length pixels mod 4 = 0" "i mod 4 = 0" "i < length pixels"
  shows "i + 3 < length pixels"
  using assms by presburger

lemma byteAt_Some: "i < length pixels \<Longrightarrow> byteAt pixels i = Some (real (unat (pixels ! i)))"
  unfolding byteAt_def by (rule if_P)

lemma byte_vals:
  "real (unat (220 :: 8 word)) = 220"
  "real (unat (170 :: 8 word)) = 170"
  "real (unat (140 :: 8 word)) = 140"
  by simp_all

lemma byte_range: "0 \<le> real (unat (w :: 8 word))" "real (unat w) \<le> 255"
proof -
  have "unat w < 2 ^ LENGTH(8)" by (rule unsigned_less)
  then have "unat w \<le> 255" by simp
  then have "real (unat w) \<le> real 255" by (simp only: of_nat_le_iff)
  then show "real (unat w) \<le> 255" by (simp only: of_nat_numeral)
  show "0 \<le> real (unat w)" by (rule of_nat_0_le_iff)
qed

lemma avg3_range:
  fixes a b c :: real
  assumes "0 \<le> a" "a \<le> 255" "0 \<le> b" "b \<le> 255" "0 \<le> c" "c \<le> 255"
  shows "0 \<le> (a + b + c) / 3" "(a + b + c) / 3 \<le> 255"
  using assms by simp_all

lemma sampleStep_transparent:
  assumes "i + 3 < length pixels" "unat (pixels ! (i + 3)) < 128"
  shows "sampleStep pixels i acc = acc"
proof -
  have "real (unat (pixels ! (i + 3))) < 128" using assms(2) by linarith
  then show ?thesis
    unfolding sampleStep_def byteAt_Some [OF assms(1)] by (simp only: option.case if_True)
qed

lemma samplePixels_transparent:
  assumes "length pixels mod 4 = 0"
    and "\<forall>j < length pixels. j mod 4 = 3 \<longrightarrow> unat (pixels ! j) < 128"
    and "i mod 4 = 0"
  shows "samplePixels pixels i acc = acc"
  using assms
proof (induction pixels i acc rule: samplePixels.induct)
  case (1 pixels i acc)
  show ?case
  proof (cases "i < length pixels")
    case False
    then show ?thesis by (simp add: samplePixels.simps)
  next
    case True
    have r: "i + 3 < length pixels"
      using sampled_alpha_in_range [OF "1.prems"(1) "1.prems"(3) True] .
    have "(i + 3) mod 4 = 3" using "1.prems"(3) by presburger
    with "1.prems"(2) r have "unat (pixels ! (i + 3)) < 128" by blast
    with r have s: "sampleStep pixels i acc = acc"
      by (rule sampleStep_transparent)
    have "(i + 16) mod 4 = 0" using "1.prems"(3) by presburger
    with "1.IH" [OF True "1.prems"(1,2)] s True show ?thesis
      by (subst samplePixels.simps) simp
  qed
qed

lemma samplePixels_fullyTransparent:
  assumes "length pixels mod 4 = 0" "fullyTransparent pixels"
  shows "samplePixels pixels 0 acc0 = acc0"
proof -
  have "\<forall>j < length pixels. j mod 4 = 3 \<longrightarrow> unat (pixels ! j) < 128"
    using assms(2) by (simp add: fullyTransparent_def)
  then show ?thesis
    using samplePixels_transparent [OF assms(1), of 0 acc0] by simp
qed

lemma sampleStep_skin:
  assumes "i + 3 < length pixels" "\<not> unat (pixels ! (i + 3)) < 128"
    and "isSkinPixel (real (unat (pixels ! i))) (real (unat (pixels ! (i + 1))))
           (real (unat (pixels ! (i + 2)))) > 0.6"
  shows "sampleStep pixels i acc =
     \<lparr> totalR = totalR acc + real (unat (pixels ! i)),
       totalG = totalG acc + real (unat (pixels ! (i + 1))),
       totalB = totalB acc + real (unat (pixels ! (i + 2))),
       totalBrightness = totalBrightness acc +
         (real (unat (pixels ! i)) + real (unat (pixels ! (i + 1))) +
          real (unat (pixels ! (i + 2)))) / 3,
       skinPixelCount = skinPixelCount acc + 1 \<rparr>"
proof -
  have a: "\<not> real (unat (pixels ! (i + 3))) < 128" using assms(2) by linarith
  have i0: "i < length pixels" and i1: "i + 1 < length pixels" and i2: "i + 2 < length pixels"
    using assms(1) by simp_all
  show ?thesis
    unfolding sampleStep_def byteAt_Some [OF assms(1)] byteAt_Some [OF i0]
      byteAt_Some [OF i1] byteAt_Some [OF i2] Let_def
    using a assms(3) by (simp only: option.case if_True if_False prod.case)
qed

lemma sampleStep_count:
  "skinPixelCount (sampleStep pixels i acc) = skinPixelCount acc \<or>
   skinPixelCount (sampleStep pixels i acc) = skinPixelCount acc + 1"
  by (simp add: sampleStep_def Let_def split: option.splits)

lemma samplePixels_count_mono:
  "skinPixelCount acc \<le> skinPixelCount (samplePixels pixels i acc)"
proof (induction pixels i acc rule: samplePixels.induct)
  case (1 pixels i acc)
  show ?case
  proof (cases "i < length pixels")
    case False
    then show ?thesis by (simp add: samplePixels.simps)
  next
    case True
    have "skinPixelCount acc \<le> skinPixelCount (sampleStep pixels i acc)"
      using sampleStep_count [of pixels i acc] by linarith
    also have "\<dots> \<le> skinPixelCount (samplePixels pixels (i + 16) (sampleStep pixels i acc))"
      by (rule "1.IH" [OF True])
    finally show ?thesis using True by (subst samplePixels.simps) simp
  qed
qed

lemma sampleStep_uniform:
  assumes "length pixels mod 4 = 0" "uniformSkin pixels" "i mod 16 = 0" "i < length pixels"
    and "uniformAcc acc"
  shows "uniformAcc (sampleStep pixels i acc) \<and>
         (sampledOpaque pixels i \<longrightarrow>
            skinPixelCount (sampleStep pixels i acc) = skinPixelCount acc + 1)"
proof -
  have i4: "i mod 4 = 0" using assms(3) by presburger
  have r: "i + 3 < length pixels"
    by (rule sampled_alpha_in_range [OF assms(1) i4 assms(4)])
  show ?thesis
  proof (cases "unat (pixels ! (i + 3)) < 128")
    case True
    then show ?thesis
      using sampleStep_transparent [OF r True] assms(5) by (simp add: sampledOpaque_def)
  next
    case False
    then have so: "sampledOpaque pixels i"
      using r assms(3) by (simp add: sampledOpaque_def)
    then have px: "pixels ! i = 220" "pixels ! (i + 1) = 170" "pixels ! (i + 2) = 140"
      using assms(2,4) by (simp_all add: uniformSkin_def)
    have sk: "isSkinPixel (real (unat (pixels ! i))) (real (unat (pixels ! (i + 1))))
           (real (unat (pixels ! (i + 2)))) > 0.6"
      unfolding px byte_vals by (simp add: isSkinPixel_uniform)
    show ?thesis
      unfolding sampleStep_skin [OF r False sk] px byte_vals
      using assms(5) so by (simp add: uniformAcc_def algebra_simps)
  qed
qed

lemma samplePixels_uniform:
  assumes "length pixels mod 4 = 0" "uniformSkin pixels" "i mod 16 = 0" "uniformAcc acc"
  shows "uniformAcc (samplePixels pixels i acc)"
  using assms
proof (induction pixels i acc rule: samplePixels.induct)
  case (1 pixels i acc)
  show ?case
  proof (cases "i < length pixels")
    case False
    then show ?thesis using "1.prems"(4) by (simp add: samplePixels.simps)
  next
    case True
    have u: "uniformAcc (sampleStep pixels i acc)"
      using sampleStep_uniform [OF "1.prems"(1,2,3) True "1.prems"(4)] by blast
    have m: "(i + 16) mod 16 = 0" using "1.prems"(3) by presburger
    show ?thesis
      using "1.IH" [OF True "1.prems"(1,2) m u] True by (subst samplePixels.simps) simp
  qed
qed

lemma samplePixels_uniform_pos:
  assumes "length pixels mod 4 = 0" "uniformSkin pixels" "i mod 16 = 0" "uniformAcc acc"
    and "sampledOpaque pixels j" "i \<le> j"
  shows "0 < skinPixelCount (samplePixels pixels i acc)"
  using assms
proof (induction pixels i acc rule: samplePixels.induct)
  case (1 pixels i acc)
  have jl: "j + 3 < length pixels" and jm: "j mod 16 = 0"
    using "1.prems"(5) by (simp_all add: sampledOpaque_def)
  then have True: "i < length pixels" using "1.prems"(6) by linarith
  note st = sampleStep_uniform [OF "1.prems"(1,2,3) True "1.prems"(4)]
  have m: "(i + 16) mod 16 = 0" using "1.prems"(3) by presburger
  have unf: "samplePixels pixels i acc =
      samplePixels pixels (i + 16) (sampleStep pixels i acc)"
    using True by (subst samplePixels.simps) simp
  show ?case
  proof (cases "j = i")
    case True
    then have "skinPixelCount (sampleStep pixels i acc) = skinPixelCount acc + 1"
      using st "1.prems"(5) by blast
    then have "0 < skinPixelCount (sampleStep pixels i acc)" by simp
    also have "\<dots> \<le> skinPixelCount (samplePixels pixels (i + 16) (sampleStep pixels i acc))"
      by (rule samplePixels_count_mono)
    finally show ?thesis unfolding unf .
  next
    case False
    then have "i + 16 \<le> j" using "1.prems"(3,6) jm by presburger
    then show ?thesis
      unfolding unf
      using "1.IH" [OF True "1.prems"(1,2) m _ "1.prems"(5)] st by blast
  qed
qed

lemma uniformAcc_acc0: "uniformAcc acc0"
  by (simp add: uniformAcc_def acc0_def)

lemma boundedAcc_add:
  assumes "boundedAcc acc" "0 \<le> r" "r \<le> 255" "0 \<le> g" "g \<le> 255" "0 \<le> b" "b \<le> 255"
    and "0 \<le> q" "q \<le> 255"
  shows "boundedAcc \<lparr> totalR = totalR acc + r, totalG = totalG acc + g,
           totalB = totalB acc + b,
           totalBrightness = totalBrightness acc + q,
           skinPixelCount = skinPixelCount acc + 1 \<rparr>"
  using assms by (simp add: boundedAcc_def algebra_simps)

lemma sampleStep_bounded:
  assumes "boundedAcc acc"
  shows "boundedAcc (sampleStep pixels i acc)"
proof -
  have "boundedAcc \<lparr> totalR = totalR acc + real (unat x), totalG = totalG acc + real (unat y),
           totalB = totalB acc + real (unat z),
           totalBrightness = totalBrightness acc + (real (unat x) + real (unat y) + real (unat z)) / 3,
           skinPixelCount = skinPixelCount acc + 1 \<rparr>" for x y z :: "8 word"
    by (rule boundedAcc_add [OF assms byte_range byte_range byte_range
          avg3_range [OF byte_range byte_range byte_range]])
  then show ?thesis
    using assms
    by (simp add: sampleStep_def byteAt_def Let_def split: option.splits)
qed

lemma samplePixels_bounded:
  assumes "boundedAcc acc"
  shows "boundedAcc (samplePixels pixels i acc)"
  using assms
proof (induction pixels i acc rule: samplePixels.induct)
  case (1 pixels i acc)
  show ?case
  proof (cases "i < length pixels")
    case False
    then show ?thesis using "1.prems" by (simp add: samplePixels.simps)
  next
    case True
    show ?thesis
      using "1.IH" [OF True sampleStep_bounded [OF "1.prems"]] True
      by (subst samplePixels.simps) simp
  qed
qed

text \<open>In every run that gets past the sampling pass the four averages lie in [0, 255]: these
  are the channel averages the classifier is ever called with.\<close>

lemma sampled_averages_in_range:
  assumes "acc = samplePixels pixels 0 acc0" "skinPixelCount acc \<noteq> 0"
  shows "0 \<le> totalR acc / real (skinPixelCount acc) \<and>
         totalR acc / real (skinPixelCount acc) \<le> 255 \<and>
         0 \<le> totalG acc / real (skinPixelCount acc) \<and>
         totalG acc / real (skinPixelCount acc) \<le> 255 \<and>
         0 \<le> totalB acc / real (skinPixelCount acc) \<and>
         totalB acc / real (skinPixelCount acc) \<le> 255 \<and>
         0 \<le> totalBrightness acc / real (skinPixelCount acc) \<and>
         totalBrightness acc / real (skinPixelCount acc) \<le> 255"
proof -
  have "boundedAcc acc0" by (simp add: boundedAcc_def acc0_def)
  then have "boundedAcc acc" unfolding assms(1) by (rule samplePixels_bounded)
  moreover have "0 < real (skinPixelCount acc)" using assms(2) by simp
  ultimately show ?thesis
    by (simp add: boundedAcc_def divide_le_eq mult.commute)
qed

lemma skinPixel_sample:
  "samplePixels [220, 170, 140, 255] 0 acc0 =
     \<lparr> totalR = 220, totalG = 170, totalB = 140, totalBrightness = 530 / 3,
       skinPixelCount = 1 \<rparr>"
  by (simp add: samplePixels.simps sampleStep_def byteAt_def acc0_def isSkinPixel_uniform)

lemma uniform_pallor: "calculatePallorIndex 220 170 140 (530 / 3) = 2467 / 11220"
  by (simp add: calculatePallorIndex_def Let_def)

lemma uniform_hemoglobin: "estimateHemoglobin 220 170 140 (2467 / 11220) = 90499 / 5610"
  by (simp add: estimateHemoglobin_def Let_def)

lemma uniform_tier:
  "result (assessAnemiaRisk fmt rnd (2467 / 11220) (90499 / 5610) r g b) = MildRisk"
  "riskScore (assessAnemiaRisk fmt rnd (2467 / 11220) (90499 / 5610) r g b) = 34"
  by (simp_all add: assess_result assess_riskScore tierBranch_result tierBranch_riskScore
      Math_round_def)

subsection \<open>The whole analysis\<close>

lemma analyze_fallback:
  assumes "outcome = LoadError \<or> \<not> ctx2d rt \<or>
     (\<exists>img. outcome = Loaded img \<and> width img \<noteq> 0 \<and> height img \<noteq> 0 \<and>
        skinPixelCount (samplePixels (data img) 0 acc0) = 0)"
  shows "analyzeAnemiaFromImage rt outcome = Resolved (getDefaultResult (dateNow rt))"
  using assms by (auto simp add: analyzeAnemiaFromImage_def Let_def split: load_outcome.splits)

lemma analyze_Loaded:
  assumes "ctx2d rt" "width img \<noteq> 0" "height img \<noteq> 0"
    and "skinPixelCount (samplePixels (data img) 0 acc0) \<noteq> 0"
  shows "\<exists>R. analyzeAnemiaFromImage rt (Loaded img) = Resolved R"
  using assms by (simp add: analyzeAnemiaFromImage_def Let_def)

section \<open>The claims\<close>

text \<open>C1. For every pallor index and hemoglobin estimate the classifier selects the one tier
  that the cascade of the table gives (Normal if \<open>p < 0.2\<close> and \<open>h \<ge> 12\<close>, else Mild Risk if
  \<open>p < 0.4\<close> and \<open>h \<ge> 10\<close>, else High Risk if \<open>p < 0.6\<close> and \<open>h \<ge> 8\<close>, else Severe
  Risk); the score before rounding is \<open>p * 50\<close>, \<open>25 + p * 40\<close>, \<open>55 + p * 30\<close>,
  \<open>75 + p * 25\<close> for the selected tier, the returned score is its rounding, and the
  focus-area list has 0, 4, 6, 8 items.\<close>

theorem assessAnemiaRisk_tier_table:
  "result (assessAnemiaRisk fmt rnd p h r g b) = spec_tier p h \<and>
   riskScore (tierBranch fmt rnd p h r g b) = spec_riskScore (spec_tier p h) p \<and>
   riskScore (assessAnemiaRisk fmt rnd p h r g b) =
     Math_round (spec_riskScore (spec_tier p h) p) \<and>
   length (focusAreas (assessAnemiaRisk fmt rnd p h r g b)) = spec_focusCount (spec_tier p h)"
  by (simp add: assess_result assess_riskScore assess_focusAreas tierBranch_result
      tierBranch_riskScore tierBranch_focusAreas spec_tier_def)

text \<open>C1, witness: pallor 0.3 with hemoglobin 11 is Mild Risk, score 25 + 0.3 * 40 = 37, four
  focus areas.\<close>

theorem assessAnemiaRisk_tier_table_witness:
  "result (assessAnemiaRisk plainFmt 0 0.3 11 180 150 120) = MildRisk \<and>
   riskScore (tierBranch plainFmt 0 0.3 11 180 150 120) = 37 \<and>
   riskScore (assessAnemiaRisk plainFmt 0 0.3 11 180 150 120) = 37 \<and>
   length (focusAreas (assessAnemiaRisk plainFmt 0 0.3 11 180 150 120)) = 4"
  using assessAnemiaRisk_tier_table [of plainFmt 0 "0.3" 11 180 150 120]
  by (simp add: spec_tier_def Math_round_def)

text \<open>C2. When the image fails to load, when the canvas gives no drawing context, or when
  the sampling pass counts no skin pixel, the promise is resolved with the fixed fallback
  record: Mild Risk, confidence 85.0, risk score 25, every colour metric zero, three
  recommendations, one finding. A fully transparent buffer gives a skin count of zero, and a
  fully transparent raster (width and height at least 1, four bytes for each pixel) is
  resolved with the fallback.\<close>

theorem fallback_when_analysis_cannot_run:
  "(outcome = LoadError \<or> \<not> ctx2d rt \<or>
     (\<exists>img. outcome = Loaded img \<and> width img \<noteq> 0 \<and> height img \<noteq> 0 \<and>
        skinPixelCount (samplePixels (data img) 0 acc0) = 0)
    \<longrightarrow> analyzeAnemiaFromImage rt outcome = Resolved (getDefaultResult (dateNow rt))) \<and>
   (length pixels mod 4 = 0 \<and> fullyTransparent pixels
    \<longrightarrow> skinPixelCount (samplePixels pixels 0 acc0) = 0) \<and>
   (width im \<noteq> 0 \<and> height im \<noteq> 0 \<and> length (data im) = 4 * width im * height im \<and>
    fullyTransparent (data im)
    \<longrightarrow> analyzeAnemiaFromImage rt (Loaded im) = Resolved (getDefaultResult (dateNow rt))) \<and>
   result (getDefaultResult date) = MildRisk \<and>
   confidence (getDefaultResult date) = 85.0 \<and>
   riskScore (getDefaultResult date) = 25 \<and>
   colorAnalysis (getDefaultResult date) =
     \<lparr> redChannel = 0, greenChannel = 0, blueChannel = 0, avgBrightness = 0,
       pallorIndex = 0, hemoglobinEstimate = 0 \<rparr> \<and>
   length (recommendations (getDefaultResult date)) = 3 \<and>
   length (detailedFindings (getDefaultResult date)) = 1"
proof -
  have t: "skinPixelCount (samplePixels px 0 acc0) = 0"
    if "length px mod 4 = 0" "fullyTransparent px" for px
    using samplePixels_fullyTransparent [OF that] by (simp add: acc0_def)
  have m: "length (data im) mod 4 = 0" if "length (data im) = 4 * width im * height im"
    using that by simp
  show ?thesis
    using analyze_fallback [of outcome rt] analyze_fallback [of "Loaded im" rt] t m
    by (simp add: getDefaultResult_def)
qed

text \<open>C2, witness: a 5 by 1 raster with alpha 0 everywhere, whose second sampled pixel has
  the colour of skin, is resolved with the fallback.\<close>

theorem fallback_when_analysis_cannot_run_witness:
  "analyzeAnemiaFromImage (plainRuntime 7)
     (Loaded \<lparr> width = 5, height = 1,
        data = [9, 9, 9, 0, 9, 9, 9, 0, 9, 9, 9, 0, 9, 9, 9, 0, 220, 170, 140, 0] \<rparr>) =
   Resolved (getDefaultResult 7)"
  using fallback_when_analysis_cannot_run [of "Loaded \<lparr> width = 5, height = 1,
        data = [9, 9, 9, 0, 9, 9, 9, 0, 9, 9, 9, 0, 9, 9, 9, 0, 220, 170, 140, 0] \<rparr>"
      "plainRuntime 7" "[]" "\<lparr> width = 5, height = 1,
        data = [9, 9, 9, 0, 9, 9, 9, 0, 9, 9, 9, 0, 9, 9, 9, 0, 220, 170, 140, 0] \<rparr>" 0]
  by (simp add: fullyTransparent_def plainRuntime_def upt_rec_numeral)

text \<open>C3, counterexample: with a red average of 0 and a pallor index of 1 the estimate is
  14 + 0 - 6 = 8, inside the range; it is not clamped to 4.\<close>

theorem estimateHemoglobin_boundary_counterexample: "estimateHemoglobin 0 0 0 1 = 8 \<and> estimateHemoglobin 0 0 0 1 \<noteq> 4"
  by (simp add: estimateHemoglobin_def Let_def)

text \<open>C3, as amended. For every red average and pallor index the estimate lies in [4, 18];
  a red average of 0 with pallor index 1 gives 8, and a red average of 255 with pallor
  index 0 gives 14 + 4 = 18, the ceiling.\<close>

theorem estimateHemoglobin_clamped:
  "4 \<le> estimateHemoglobin r g b p \<and> estimateHemoglobin r g b p \<le> 18 \<and>
   estimateHemoglobin 0 g b 1 = 8 \<and> estimateHemoglobin 255 g b 0 = 18"
  by (simp add: estimateHemoglobin_def Let_def)

text \<open>C3, witness: the clamp met at both ends, the floor at pallor index 3 and the ceiling at
  pallor index -1.\<close>

theorem estimateHemoglobin_clamped_witness:
  "estimateHemoglobin 0 0 0 3 = 4 \<and> estimateHemoglobin 255 0 0 (-1) = 18"
  using estimateHemoglobin_clamped [of 0 0 0 3] estimateHemoglobin_clamped [of 255 0 0 "-1"]
  by (simp add: estimateHemoglobin_def Let_def)

text \<open>C4. For every pixel the hue, saturation and value that the code computes are those of
  the RGB to HSV conversion, the hue lying in [0, 360); the score of the code is the score
  of the specification: 0.9 when hue in [0, 25] or [340, 360], saturation in [0.15, 0.68],
  value in [0.35, 0.95] and the RGB heuristic all hold, 0.7 when the RGB heuristic holds and
  they do not all hold, 0.5 when the RGB heuristic fails and the hue and saturation ranges
  hold (value is not looked at), and 0.0 otherwise. A score is above 0.6 exactly when it is
  0.9 or 0.7, that is when the RGB heuristic holds; the loop body leaves the sums unchanged
  for a pixel whose score is not above 0.6, and adds an opaque pixel whose score is above
  0.6.\<close>

theorem isSkinPixel_score_tiers:
  "hsv_h r g b = spec_hue r g b \<and>
   hsv_s r g b = spec_saturation r g b \<and>
   hsv_v r g b = spec_value r g b \<and>
   0 \<le> hsv_h r g b \<and> hsv_h r g b < 360 \<and>
   isSkinPixel r g b = spec_skinScore r g b \<and>
   (isSkinPixel r g b > 0.6 \<longleftrightarrow> isSkinPixel r g b = 0.9 \<or> isSkinPixel r g b = 0.7) \<and>
   (isSkinPixel r g b > 0.6 \<longleftrightarrow> spec_rgbHeuristic r g b) \<and>
   (byteAt pixels i = Some r \<and> byteAt pixels (i + 1) = Some g \<and>
      byteAt pixels (i + 2) = Some b \<and> \<not> isSkinPixel r g b > 0.6
      \<longrightarrow> sampleStep pixels i acc = acc) \<and>
   (byteAt pixels i = Some r \<and> byteAt pixels (i + 1) = Some g \<and>
      byteAt pixels (i + 2) = Some b \<and> byteAt pixels (i + 3) = Some a \<and> \<not> a < 128 \<and>
      isSkinPixel r g b > 0.6
      \<longrightarrow> sampleStep pixels i acc =
          \<lparr> totalR = totalR acc + r, totalG = totalG acc + g, totalB = totalB acc + b,
            totalBrightness = totalBrightness acc + (r + g + b) / 3,
            skinPixelCount = skinPixelCount acc + 1 \<rparr>)"
proof -
  have s: "isSkinPixel r g b > 0.6 \<longleftrightarrow> isSkinPixel r g b = 0.9 \<or> isSkinPixel r g b = 0.7"
    by (simp add: isSkinPixel_def)
  have t: "isSkinPixel r g b > 0.6 \<longleftrightarrow> spec_rgbHeuristic r g b"
    unfolding isSkinPixel_is_spec by (simp add: spec_skinScore_def)
  have n: "sampleStep pixels i acc = acc"
    if "byteAt pixels i = Some r" "byteAt pixels (i + 1) = Some g"
      "byteAt pixels (i + 2) = Some b" "\<not> isSkinPixel r g b > 0.6"
    using that by (simp add: sampleStep_def Let_def split: option.splits)
  have y: "sampleStep pixels i acc =
          \<lparr> totalR = totalR acc + r, totalG = totalG acc + g, totalB = totalB acc + b,
            totalBrightness = totalBrightness acc + (r + g + b) / 3,
            skinPixelCount = skinPixelCount acc + 1 \<rparr>"
    if "byteAt pixels i = Some r" "byteAt pixels (i + 1) = Some g"
      "byteAt pixels (i + 2) = Some b" "byteAt pixels (i + 3) = Some a" "\<not> a < 128"
      "isSkinPixel r g b > 0.6"
    using that by (simp add: sampleStep_def Let_def)
  have n': "byteAt pixels i = Some r \<and> byteAt pixels (i + 1) = Some g \<and>
      byteAt pixels (i + 2) = Some b \<and> \<not> isSkinPixel r g b > 0.6
      \<longrightarrow> sampleStep pixels i acc = acc"
    using n by (intro impI) (elim conjE)
  have y': "byteAt pixels i = Some r \<and> byteAt pixels (i + 1) = Some g \<and>
      byteAt pixels (i + 2) = Some b \<and> byteAt pixels (i + 3) = Some a \<and> \<not> a < 128 \<and>
      isSkinPixel r g b > 0.6
      \<longrightarrow> sampleStep pixels i acc =
          \<lparr> totalR = totalR acc + r, totalG = totalG acc + g, totalB = totalB acc + b,
            totalBrightness = totalBrightness acc + (r + g + b) / 3,
            skinPixelCount = skinPixelCount acc + 1 \<rparr>"
    using y by (intro impI) (elim conjE)
  have h: "0 \<le> hsv_h r g b" "hsv_h r g b < 360"
    using spec_hue_range [of r g b] by (simp_all only: hsv_h_is_spec_hue)
  show ?thesis
    using hsv_h_is_spec_hue [of r g b] hsv_s_is_spec [of r g b] hsv_v_is_spec [of r g b] h
      isSkinPixel_is_spec [of r g b] s t n' y'
    by - (intro conjI; assumption)
qed

text \<open>C4, witness: pixels of each score with their hues. Score 0.9 at hue 22.5 and at hue
  351.4 (the second range); 0.7 at hue 306, outside both ranges, and at value 1; 0.5 at
  hue 15 and at hue 345; 0.0 at hues 120 and 227.1 with the saturation in range, and for
  black; the sums are unchanged by the opaque pixel (90, 60, 50) of score 0.5.\<close>

theorem isSkinPixel_score_tiers_witness:
  "hsv_h 220 170 140 = 45 / 2 \<and> isSkinPixel 220 170 140 = 0.9 \<and>
   hsv_h 220 150 160 = 2460 / 7 \<and> isSkinPixel 220 150 160 = 0.9 \<and>
   hsv_h 200 100 190 = 306 \<and> isSkinPixel 200 100 190 = 0.7 \<and>
   hsv_v 255 200 190 = 1 \<and> isSkinPixel 255 200 190 = 0.7 \<and>
   hsv_h 90 60 50 = 15 \<and> isSkinPixel 90 60 50 = 0.5 \<and>
   hsv_h 90 50 60 = 345 \<and> isSkinPixel 90 50 60 = 0.5 \<and>
   hsv_h 100 150 100 = 120 \<and> isSkinPixel 100 150 100 = 0 \<and>
   hsv_h 60 90 200 = 1590 / 7 \<and> isSkinPixel 60 90 200 = 0 \<and>
   hsv_s 0 0 0 = 0 \<and> isSkinPixel 0 0 0 = 0 \<and>
   sampleStep [90, 60, 50, 255] 0 acc0 = acc0"
proof -
  have e: "byteAt [90, 60, 50, 255] 0 = Some 90" "byteAt [90, 60, 50, 255] (0 + 1) = Some 60"
    "byteAt [90, 60, 50, 255] (0 + 2) = Some 50"
    by (simp_all add: byteAt_def)
  have 1: "hsv_h 220 170 140 = 45 / 2 \<and> isSkinPixel 220 170 140 = 0.9"
    using isSkinPixel_score_tiers [of 220 170 140 "[]" 0 acc0 0] by (simp add: spec_skin_defs)
  have 2: "hsv_h 220 150 160 = 2460 / 7 \<and> isSkinPixel 220 150 160 = 0.9"
    using isSkinPixel_score_tiers [of 220 150 160 "[]" 0 acc0 0] by (simp add: spec_skin_defs)
  have 3: "hsv_h 200 100 190 = 306 \<and> isSkinPixel 200 100 190 = 0.7"
    using isSkinPixel_score_tiers [of 200 100 190 "[]" 0 acc0 0] by (simp add: spec_skin_defs)
  have 4: "hsv_v 255 200 190 = 1 \<and> isSkinPixel 255 200 190 = 0.7"
    using isSkinPixel_score_tiers [of 255 200 190 "[]" 0 acc0 0] by (simp add: spec_skin_defs)
  have 5: "hsv_h 90 60 50 = 15 \<and> isSkinPixel 90 60 50 = 0.5 \<and>
           sampleStep [90, 60, 50, 255] 0 acc0 = acc0"
    using isSkinPixel_score_tiers [of 90 60 50 "[90, 60, 50, 255]" 0 acc0 255] e by (simp add: spec_skin_defs)
  have 6: "hsv_h 90 50 60 = 345 \<and> isSkinPixel 90 50 60 = 0.5"
    using isSkinPixel_score_tiers [of 90 50 60 "[]" 0 acc0 0] by (simp add: spec_skin_defs)
  have 7: "hsv_h 100 150 100 = 120 \<and> isSkinPixel 100 150 100 = 0"
    using isSkinPixel_score_tiers [of 100 150 100 "[]" 0 acc0 0] by (simp add: spec_skin_defs)
  have 8: "hsv_h 60 90 200 = 1590 / 7 \<and> isSkinPixel 60 90 200 = 0"
    using isSkinPixel_score_tiers [of 60 90 200 "[]" 0 acc0 0] by (simp add: spec_skin_defs)
  have 9: "hsv_s 0 0 0 = 0 \<and> isSkinPixel 0 0 0 = 0"
    using isSkinPixel_score_tiers [of 0 0 0 "[]" 0 acc0 0] by (simp add: spec_skin_defs)
  show ?thesis using 1 2 3 4 5 6 7 8 9 by (intro conjI) simp_all
qed

text \<open>C5, counterexample: the raster of one opaque (220, 170, 140) pixel is classified
  Mild Risk, not Normal.\<close>

theorem uniform_skin_not_normal_counterexample:
  "(case analyzeAnemiaFromImage (plainRuntime 0) (Loaded skinPixelImage) of
      Resolved R \<Rightarrow> result R = MildRisk \<and> result R \<noteq> Normal
    | Pending \<Rightarrow> False)"
  by (simp add: analyzeAnemiaFromImage_def skinPixelImage_def plainRuntime_def Let_def
      skinPixel_sample uniform_pallor uniform_hemoglobin assess_result tierBranch_result)

text \<open>C5, as amended. For every raster that has a sampled opaque pixel and in which
  every sampled opaque pixel is (220, 170, 140), the skin count is positive, the pallor
  index is 2467/11220 (about 0.2199, not below 0.2), the hemoglobin estimate is at least
  12.0, and the analysis resolves with tier Mild Risk and risk score 34.\<close>

theorem uniform_skin_mild_risk:
  assumes "ctx2d rt" "width img \<noteq> 0" "height img \<noteq> 0"
    and "length (data img) mod 4 = 0"
    and "uniformSkin (data img)"
    and "sampledOpaque (data img) j"
  shows "0 < skinPixelCount (samplePixels (data img) 0 acc0) \<and>
    (let acc = samplePixels (data img) 0 acc0; n = real (skinPixelCount acc);
         pallor = calculatePallorIndex (totalR acc / n) (totalG acc / n) (totalB acc / n)
                    (totalBrightness acc / n)
     in pallor = 2467 / 11220 \<and> \<not> pallor < 0.2 \<and>
        estimateHemoglobin (totalR acc / n) (totalG acc / n) (totalB acc / n) pallor \<ge> 12.0) \<and>
    (\<exists>R. analyzeAnemiaFromImage rt (Loaded img) = Resolved R \<and>
         result R = MildRisk \<and> riskScore R = 34)"
proof -
  define acc where "acc = samplePixels (data img) 0 acc0"
  define n where "n = real (skinPixelCount acc)"
  have m: "(0 :: nat) mod 16 = 0" by simp
  have u: "uniformAcc acc"
    unfolding acc_def
    by (rule samplePixels_uniform [OF assms(4,5) m uniformAcc_acc0])
  have pos: "0 < skinPixelCount acc"
    unfolding acc_def
    by (rule samplePixels_uniform_pos [OF assms(4,5) m uniformAcc_acc0 assms(6)]) simp
  then have n0: "n \<noteq> 0" by (simp add: n_def)
  have avg: "totalR acc / n = 220" "totalG acc / n = 170" "totalB acc / n = 140"
    "totalBrightness acc / n = 530 / 3"
    using u n0 by (simp_all add: uniformAcc_def n_def)
  have p: "calculatePallorIndex (totalR acc / n) (totalG acc / n) (totalB acc / n)
             (totalBrightness acc / n) = 2467 / 11220"
    unfolding avg by (rule uniform_pallor)
  have h: "estimateHemoglobin (totalR acc / n) (totalG acc / n) (totalB acc / n)
             (2467 / 11220) = 90499 / 5610"
    unfolding avg by (rule uniform_hemoglobin)
  have c: "skinPixelCount acc \<noteq> 0" using pos by simp
  have R: "\<exists>R. analyzeAnemiaFromImage rt (Loaded img) = Resolved R \<and>
         result R = MildRisk \<and> riskScore R = 34"
    using assms(1,2,3) c
    by (simp add: analyzeAnemiaFromImage_def Let_def acc_def [symmetric] n_def [symmetric]
        p h uniform_tier)
  have L: "(let acc = samplePixels (data img) 0 acc0; n = real (skinPixelCount acc);
         pallor = calculatePallorIndex (totalR acc / n) (totalG acc / n) (totalB acc / n)
                    (totalBrightness acc / n)
     in pallor = 2467 / 11220 \<and> \<not> pallor < 0.2 \<and>
        estimateHemoglobin (totalR acc / n) (totalG acc / n) (totalB acc / n) pallor \<ge> 12.0)"
    by (simp add: Let_def acc_def [symmetric] n_def [symmetric] p h)
  show ?thesis
    using pos R L unfolding acc_def by (intro conjI)
qed

text \<open>C5, witness: a 5 by 1 raster whose first pixel is opaque (220, 170, 140), whose next
  three pixels are not sampled and whose last pixel is sampled and transparent.\<close>

theorem uniform_skin_mild_risk_witness:
  "(case analyzeAnemiaFromImage (plainRuntime 0)
      (Loaded \<lparr> width = 5, height = 1,
         data = [220, 170, 140, 255, 0, 0, 0, 255, 1, 2, 3, 255, 4, 5, 6, 255,
                 7, 8, 9, 0] \<rparr>) of
      Resolved R \<Rightarrow> result R = MildRisk \<and> riskScore R = 34
    | Pending \<Rightarrow> False)"
proof -
  let ?px = "[220, 170, 140, 255, 0, 0, 0, 255, 1, 2, 3, 255, 4, 5, 6, 255,
                 7, 8, 9, 0] :: 8 word list"
  let ?img = "\<lparr> width = 5, height = 1, data = ?px \<rparr>"
  have 1: "ctx2d (plainRuntime 0)" by (simp add: plainRuntime_def)
  have 2: "width ?img \<noteq> 0" "height ?img \<noteq> 0" "length (data ?img) mod 4 = 0" by simp_all
  have 3: "sampledOpaque (data ?img) 0" by (simp add: sampledOpaque_def)
  have 4: "uniformSkin (data ?img)"
    by (simp add: uniformSkin_def sampledOpaque_def upt_rec_numeral)
  show ?thesis
    using uniform_skin_mild_risk [OF 1 2 4 3] by auto
qed

text \<open>C6. With the hemoglobin estimate fixed, a larger pallor index never gives a less
  severe tier.\<close>

theorem tier_monotone_in_pallor:
  "p1 \<le> p2 \<Longrightarrow>
   severity (result (assessAnemiaRisk fmt1 rnd1 p1 h ra ga ba)) \<le>
   severity (result (assessAnemiaRisk fmt2 rnd2 p2 h rb gb bb))"
  by (simp add: assess_result tierBranch_result)

text \<open>C6, witness: at hemoglobin 13, pallor 0.1 is Normal and pallor 0.5 is High Risk.\<close>

theorem tier_monotone_in_pallor_witness:
  "(0.1 :: real) \<le> 0.5 \<and>
   severity (result (assessAnemiaRisk plainFmt 0 0.1 13 200 150 120)) = 0 \<and>
   severity (result (assessAnemiaRisk plainFmt 0 0.5 13 200 150 120)) = 2"
  using tier_monotone_in_pallor [of "0.1" "0.5" plainFmt 0 13 200 150 120 plainFmt 0 200 150 120]
  by (simp add: assess_result tierBranch_result)

text \<open>C7. Take two calls of the classifier on pallor indices computed from channel
  averages in [0, 255], as every run of the analysis provides them. If the second lands in a
  more severe tier than the first, its risk score is larger before rounding and not
  smaller after rounding. Pallor 0.2 with hemoglobin 12.0 is Mild Risk with score
  25 + 0.2 * 40 = 33, and every Normal score is below 10.\<close>

theorem riskScore_ordered_across_tiers:
  assumes "0 \<le> ra" "ra \<le> 255" "0 \<le> ga" "ga \<le> 255"
    and "0 \<le> rb" "rb \<le> 255" "0 \<le> gb" "gb \<le> 255"
    and "severity (result (assessAnemiaRisk fmt1 rnd1 (calculatePallorIndex ra ga ba bra) h1 ra ga ba)) <
         severity (result (assessAnemiaRisk fmt2 rnd2 (calculatePallorIndex rb gb bb brb) h2 rb gb bb))"
  shows "riskScore (tierBranch fmt1 rnd1 (calculatePallorIndex ra ga ba bra) h1 ra ga ba) <
         riskScore (tierBranch fmt2 rnd2 (calculatePallorIndex rb gb bb brb) h2 rb gb bb) \<and>
         riskScore (assessAnemiaRisk fmt1 rnd1 (calculatePallorIndex ra ga ba bra) h1 ra ga ba) \<le>
         riskScore (assessAnemiaRisk fmt2 rnd2 (calculatePallorIndex rb gb bb brb) h2 rb gb bb) \<and>
         result (assessAnemiaRisk fmt rnd 0.2 12.0 r g b) = MildRisk \<and>
         riskScore (tierBranch fmt rnd 0.2 12.0 r g b) = 33 \<and>
         (result (tierBranch fmt rnd p h r g b) = Normal \<longrightarrow>
            riskScore (tierBranch fmt rnd p h r g b) < 10)"
proof -
  have pa: "0 \<le> calculatePallorIndex ra ga ba bra"
    by (rule calculatePallorIndex_nonneg [OF assms(1-4)])
  have pb: "0 \<le> calculatePallorIndex rb gb bb brb"
    by (rule calculatePallorIndex_nonneg [OF assms(5-8)])
  have s: "severity (result (tierBranch fmt1 rnd1 (calculatePallorIndex ra ga ba bra) h1 ra ga ba)) <
         severity (result (tierBranch fmt2 rnd2 (calculatePallorIndex rb gb bb brb) h2 rb gb bb))"
    using assms(9) by (simp only: assess_result)
  have raw: "riskScore (tierBranch fmt1 rnd1 (calculatePallorIndex ra ga ba bra) h1 ra ga ba) <
         riskScore (tierBranch fmt2 rnd2 (calculatePallorIndex rb gb bb brb) h2 rb gb bb)"
    by (rule tier_score_strict [OF pa pb s])
  then have rounded:
    "riskScore (assessAnemiaRisk fmt1 rnd1 (calculatePallorIndex ra ga ba bra) h1 ra ga ba) \<le>
     riskScore (assessAnemiaRisk fmt2 rnd2 (calculatePallorIndex rb gb bb brb) h2 rb gb bb)"
    by (simp only: assess_riskScore) (rule Math_round_mono, simp)
  have ex: "result (assessAnemiaRisk fmt rnd 0.2 12.0 r g b) = MildRisk \<and>
         riskScore (tierBranch fmt rnd 0.2 12.0 r g b) = 33"
    by (simp add: assess_result tierBranch_result tierBranch_riskScore)
  have nm: "result (tierBranch fmt rnd p h r g b) = Normal \<longrightarrow>
            riskScore (tierBranch fmt rnd p h r g b) < 10"
    by (simp add: tierBranch_result tierBranch_riskScore)
  show ?thesis using raw rounded ex nm by (intro conjI) simp_all
qed

text \<open>C7, witness: averages (220, 170, 140) give Mild Risk and averages (100, 90, 80) at
  brightness 90 give Severe Risk, with the scores in that order.\<close>

theorem riskScore_ordered_across_tiers_witness:
  "riskScore (tierBranch plainFmt 0 (calculatePallorIndex 220 170 140 (530 / 3)) 16 220 170 140) <
   riskScore (tierBranch plainFmt 0 (calculatePallorIndex 100 90 80 90) 9 100 90 80) \<and>
   riskScore (assessAnemiaRisk plainFmt 0 (calculatePallorIndex 220 170 140 (530 / 3)) 16 220 170 140) \<le>
   riskScore (assessAnemiaRisk plainFmt 0 (calculatePallorIndex 100 90 80 90) 9 100 90 80)"
proof -
  have s: "severity (result (assessAnemiaRisk plainFmt 0
              (calculatePallorIndex 220 170 140 (530 / 3)) 16 220 170 140)) <
           severity (result (assessAnemiaRisk plainFmt 0
              (calculatePallorIndex 100 90 80 90) 9 100 90 80))"
    by (simp add: assess_result tierBranch_result calculatePallorIndex_def Let_def)
  show ?thesis
    using riskScore_ordered_across_tiers [of 220 170 100 90 plainFmt 0 140 "530 / 3" 16 plainFmt 0 80 90 9, OF _ _ _ _ _ _ _ _ s]
    by simp
qed

text \<open>C8, counterexample: two runs on the same raster with the same value of
  \<^verbatim>\<open>Math.random()\<close> have the same confidence and different timestamps, so the confidence
  is not the only field that varies between runs.\<close>

theorem timestamp_differs_counterexample:
  "(case (analyzeAnemiaFromImage (plainRuntime 1) (Loaded skinPixelImage),
          analyzeAnemiaFromImage (plainRuntime 2) (Loaded skinPixelImage)) of
      (Resolved R1, Resolved R2) \<Rightarrow>
         confidence R1 = confidence R2 \<and> timestamp R1 \<noteq> timestamp R2
    | _ \<Rightarrow> False)"
  by (simp add: analyzeAnemiaFromImage_def skinPixelImage_def plainRuntime_def Let_def
      skinPixel_sample assess_confidence tierBranch_confidence)

text \<open>C8, as amended. Two runs on the same image, with the drawing context equally
  available, both stay pending or both resolve, and then with the same tier, risk score,
  colour metrics and recommendations; the heatmap is the same when its context is equally
  available, the explanation and findings are the same under the same number rendering.
  The confidence (through \<^verbatim>\<open>Math.random()\<close>) and the timestamp (through
  \<^verbatim>\<open>new Date()\<close>) are the fields that vary: each is the same when its source is.\<close>

theorem analysis_deterministic_fields:
  assumes "ctx2d rt1 = ctx2d rt2"
  shows "(analyzeAnemiaFromImage rt1 outcome = Pending \<longleftrightarrow>
          analyzeAnemiaFromImage rt2 outcome = Pending) \<and>
         (\<forall>R1 R2. analyzeAnemiaFromImage rt1 outcome = Resolved R1 \<and>
                  analyzeAnemiaFromImage rt2 outcome = Resolved R2 \<longrightarrow>
            result R1 = result R2 \<and> riskScore R1 = riskScore R2 \<and>
            colorAnalysis R1 = colorAnalysis R2 \<and>
            recommendations R1 = recommendations R2 \<and>
            (gradCtx2d rt1 = gradCtx2d rt2 \<longrightarrow> gradCamUrl R1 = gradCamUrl R2) \<and>
            (numfmt.truncate rt1 = numfmt.truncate rt2 \<longrightarrow>
               explanation R1 = explanation R2 \<and>
               detailedFindings R1 = detailedFindings R2) \<and>
            (mathRandom rt1 = mathRandom rt2 \<longrightarrow> confidence R1 = confidence R2) \<and>
            (dateNow rt1 = dateNow rt2 \<longrightarrow> timestamp R1 = timestamp R2))"
proof (cases outcome)
  case LoadError
  then show ?thesis
    by (auto simp add: analyzeAnemiaFromImage_def getDefaultResult_def)
next
  case (Loaded img)
  show ?thesis
  proof (cases "ctx2d rt1 \<and> width img \<noteq> 0 \<and> height img \<noteq> 0 \<and>
      skinPixelCount (samplePixels (data img) 0 acc0) \<noteq> 0")
    case False
    then show ?thesis
      using assms Loaded
      by (auto simp add: analyzeAnemiaFromImage_def getDefaultResult_def Let_def)
  next
    case True
    then show ?thesis
      using assms Loaded
      by (simp add: analyzeAnemiaFromImage_def Let_def assess_result tierBranch_result
          assess_riskScore tierBranch_riskScore assess_focusAreas tierBranch_focusAreas
          assess_confidence tierBranch_confidence assess_explanation assess_detailedFindings
          assess_recommendations [of _ _ _ _ _ _ _ "numfmt.truncate rt1" 0 0 0 0])
  qed
qed

text \<open>C8, witness: the one-pixel raster analysed at two different dates.\<close>

theorem analysis_deterministic_fields_witness:
  "(case (analyzeAnemiaFromImage (plainRuntime 1) (Loaded skinPixelImage),
          analyzeAnemiaFromImage (plainRuntime 2) (Loaded skinPixelImage)) of
      (Resolved R1, Resolved R2) \<Rightarrow>
         result R1 = result R2 \<and> riskScore R1 = riskScore R2 \<and>
         colorAnalysis R1 = colorAnalysis R2 \<and> gradCamUrl R1 = gradCamUrl R2
    | _ \<Rightarrow> False)"
proof -
  have n: "skinPixelCount (samplePixels (data skinPixelImage) 0 acc0) \<noteq> 0"
    by (simp add: skinPixelImage_def skinPixel_sample)
  have d: "width skinPixelImage \<noteq> 0" "height skinPixelImage \<noteq> 0"
    by (simp_all add: skinPixelImage_def)
  have c: "ctx2d (plainRuntime 1)" "ctx2d (plainRuntime 2)"
    "gradCtx2d (plainRuntime 1) = gradCtx2d (plainRuntime 2)"
    by (simp_all add: plainRuntime_def)
  obtain R1 where R1: "analyzeAnemiaFromImage (plainRuntime 1) (Loaded skinPixelImage) = Resolved R1"
    using analyze_Loaded [OF c(1) d n] by blast
  obtain R2 where R2: "analyzeAnemiaFromImage (plainRuntime 2) (Loaded skinPixelImage) = Resolved R2"
    using analyze_Loaded [OF c(2) d n] by blast
  have e: "ctx2d (plainRuntime 1) = ctx2d (plainRuntime 2)" using c by simp
  show ?thesis
    using analysis_deterministic_fields [OF e, of "Loaded skinPixelImage"] R1 R2 c(3) by simp
qed

text \<open>C9. For averages of red, green and brightness in [0, 255] the pallor index lies in
  [0, 1], and the risk score of whichever tier is selected lies in [0, 100], before
  rounding and after.\<close>

theorem pallorIndex_and_riskScore_bounds:
  assumes "0 \<le> ra" "ra \<le> 255" "0 \<le> ga" "ga \<le> 255" "0 \<le> bra" "bra \<le> 255"
  shows "0 \<le> calculatePallorIndex ra ga ba bra \<and>
         calculatePallorIndex ra ga ba bra \<le> 1 \<and>
         0 \<le> riskScore (tierBranch fmt rnd (calculatePallorIndex ra ga ba bra) h r g b) \<and>
         riskScore (tierBranch fmt rnd (calculatePallorIndex ra ga ba bra) h r g b) \<le> 100 \<and>
         0 \<le> riskScore (assessAnemiaRisk fmt rnd (calculatePallorIndex ra ga ba bra) h r g b) \<and>
         riskScore (assessAnemiaRisk fmt rnd (calculatePallorIndex ra ga ba bra) h r g b) \<le> 100"
proof -
  have lo: "0 \<le> calculatePallorIndex ra ga ba bra"
    by (rule calculatePallorIndex_nonneg [OF assms(1-4)])
  have hi: "calculatePallorIndex ra ga ba bra \<le> 1"
    by (rule calculatePallorIndex_le_one [OF assms(1) assms(5)])
  note sc = tier_score_percent [OF lo hi, of fmt rnd h r g b]
  have rd: "0 \<le> riskScore (assessAnemiaRisk fmt rnd (calculatePallorIndex ra ga ba bra) h r g b) \<and>
         riskScore (assessAnemiaRisk fmt rnd (calculatePallorIndex ra ga ba bra) h r g b) \<le> 100"
    unfolding assess_riskScore using sc by (intro Math_round_range) simp_all
  show ?thesis using lo hi sc rd by (intro conjI) simp_all
qed

text \<open>C9, witness: black averages give pallor index 1 and the score 100.\<close>

theorem pallorIndex_and_riskScore_bounds_witness:
  "calculatePallorIndex 0 0 0 0 = 1 \<and>
   riskScore (tierBranch plainFmt 0 (calculatePallorIndex 0 0 0 0) 8 0 0 0) = 100 \<and>
   riskScore (assessAnemiaRisk plainFmt 0 (calculatePallorIndex 0 0 0 0) 8 0 0 0) \<le> 100"
  using pallorIndex_and_riskScore_bounds [of 0 0 0 0 plainFmt 0 8 0 0 0]
  by (simp add: calculatePallorIndex_def Let_def tierBranch_riskScore)

text \<open>C10, counterexample: without a drawing context the renderer returns the empty string,
  which encodes no raster, for a non-empty list of focus areas.\<close>

theorem generateGradCAM_no_context_counterexample:
  "generateGradCAM False \<lparr> width = 3, height = 3, ops = [] \<rparr> [30, 40, 50, 60] = EmptyString"
  by (simp add: generateGradCAM_def)

text \<open>C10, as amended. When the renderer gets its drawing context, the canvas it encodes
  has the width and height of the input canvas, for every list of focus areas, empty or
  not, and holds the base layer and one rectangle for each focus area; without the context
  the result is the empty string, for every input.\<close>

theorem generateGradCAM_same_size:
  "(\<exists>out. generateGradCAM True cv areas = DataURL out \<and>
          width out = width cv \<and> height out = height cv \<and>
          length (ops out) = 1 + length areas) \<and>
   generateGradCAM False cv areas = EmptyString"
  by (simp add: generateGradCAM_def)

text \<open>C10, witness: a 640 by 480 canvas with four focus areas.\<close>

theorem generateGradCAM_same_size_witness:
  "(case generateGradCAM True \<lparr> width = 640, height = 480, ops = [] \<rparr> [30, 40, 50, 60] of
      DataURL out \<Rightarrow> width out = 640 \<and> height out = 480
    | EmptyString \<Rightarrow> False)"
  using generateGradCAM_same_size [of "\<lparr> width = 640, height = 480, ops = [] \<rparr>" "[30, 40, 50, 60]"]
  by auto

end
